theory Spec2Isabelle
  imports Complex_Main
begin

section \<open>Values of the platform\<close>

text \<open>
  Times are milliseconds since the epoch, as \<^verbatim>\<open>Date.getTime()\<close> gives them; a nullable
  \<^verbatim>\<open>DateTime\<close> column is a \<open>time option\<close>. A \<^verbatim>\<open>Date\<close> object is always truthy in
  JavaScript, so \<^verbatim>\<open>if (row.revokedAt)\<close> tests for \<open>Some\<close>; a string is truthy
  exactly when it is not empty, so \<^verbatim>\<open>if (s)\<close> on a \<^verbatim>\<open>string | null | undefined\<close> is
  \<open>truthy\<close> below, and \<^verbatim>\<open>s || null\<close> is \<open>or_null\<close>.
\<close>

type_synonym time = int

definition truthy :: "string option \<Rightarrow> bool" where
  "truthy s = (case s of None \<Rightarrow> False | Some x \<Rightarrow> x \<noteq> [])"

definition or_null :: "string option \<Rightarrow> string option" where
  "or_null s = (if truthy s then s else None)"

definition or_else :: "string option \<Rightarrow> string \<Rightarrow> string" where
  "or_else s d = (case s of None \<Rightarrow> d | Some x \<Rightarrow> if x = [] then d else x)"

definition is_true :: "bool option \<Rightarrow> bool" where
  "is_true b = (b = Some True)"

definition startsWith :: "string \<Rightarrow> string \<Rightarrow> bool" where
  "startsWith s p = (take (length p) s = p)"

text \<open>
  A value of a parsed JSON body. Arrays and objects are not told apart: the routes only
  test such a value for truthiness and for being a string.
\<close>

datatype jsval = JUndefined | JNull | JBool bool | JNum rat | JStr string | JObject

fun js_truthy :: "jsval \<Rightarrow> bool" where
  "js_truthy JUndefined = False"
| "js_truthy JNull = False"
| "js_truthy (JBool b) = b"
| "js_truthy (JNum n) = (n \<noteq> 0)"
| "js_truthy (JStr s) = (s \<noteq> [])"
| "js_truthy JObject = True"

section \<open>Rows of the store\<close>

text \<open>
  The tables the code reads, with the columns it reads (the schema file is not among the
  sources). The \<^verbatim>\<open>DeviceToken\<close> table is the one of the migration (primary key \<^verbatim>\<open>id\<close>, unique index on \<^verbatim>\<open>token\<close>, foreign keys
  \<^verbatim>\<open>familyId\<close> and \<^verbatim>\<open>caretakerId\<close>); its \<^verbatim>\<open>updatedAt\<close> column is never read and is left
  out. A relation that a query includes (\<^verbatim>\<open>include: { family: ... }\<close>) is resolved through
  the foreign key column. The store client is an external collaborator: a query is a total
  function of the tables, and the store rejects a call only for a reason visible in the
  data (a unique constraint, a record to connect or update that does not exist).
\<close>

record family =
  fam_id :: string
  fam_slug :: string

record caretaker =
  crt_id :: string
  crt_loginId :: string
  crt_name :: string
  crt_type :: "string option"
  crt_role :: string
  crt_familyId :: "string option"
  crt_deletedAt :: "time option"

record account =
  acc_id :: string
  acc_closed :: bool
  acc_verified :: bool
  acc_betaparticipant :: bool
  acc_trialEnds :: "time option"
  acc_planExpires :: "time option"
  acc_planType :: "string option"
  acc_familyId :: "string option"
  acc_caretakerId :: "string option"

record device_token =
  dt_id :: string
  dt_token :: string
  dt_name :: string
  dt_familyId :: string
  dt_caretakerId :: string
  dt_expiresAt :: "time option"
  dt_revokedAt :: "time option"
  dt_lastUsedAt :: "time option"
  dt_createdAt :: time

record baby =
  baby_id :: string
  baby_firstName :: string
  baby_familyId :: string
  baby_inactive :: bool

record settings =
  set_familyId :: string
  set_defaultBottleUnit :: string

record medicine =
  med_id :: string
  med_name :: string
  med_familyId :: string
  med_active :: bool
  med_typicalDoseSize :: "rat option"
  med_unitAbbr :: "string option"

text \<open>
  The rows of the logs, with the values as the routes hand them to the store: a field that
  a route fills from the body without a check has the type of a value of the body.
\<close>

record feed_log =
  fl_babyId :: string
  fl_time :: time
  fl_type :: string
  fl_amount :: "rat option option"
  fl_unitAbbr :: "string option"
  fl_bottleType :: jsval
  fl_side :: "string option"
  fl_caretakerId :: "string option"
  fl_familyId :: string

record diaper_log =
  dl_babyId :: string
  dl_time :: time
  dl_type :: string
  dl_caretakerId :: "string option"
  dl_familyId :: string

record sleep_log =
  sl_id :: string
  sl_babyId :: string
  sl_startTime :: time
  sl_endTime :: "time option"
  sl_duration :: "int option"
  sl_type :: string
  sl_caretakerId :: "string option"
  sl_familyId :: string

record medicine_log =
  ml_babyId :: string
  ml_medicineId :: string
  ml_time :: time
  ml_doseAmount :: "rat option"
  ml_unitAbbr :: jsval
  ml_caretakerId :: "string option"
  ml_familyId :: string

record family_setup =
  fs_token :: string
  fs_familyId :: "string option"

record db =
  families :: "family list"
  caretakers :: "caretaker list"
  accounts :: "account list"
  deviceTokens :: "device_token list"
  familySetups :: "family_setup list"
  babies :: "baby list"
  settingsRows :: "settings list"
  medicines :: "medicine list"
  feedLogs :: "feed_log list"
  diaperLogs :: "diaper_log list"
  sleepLogs :: "sleep_log list"
  medicineLogs :: "medicine_log list"

definition family_by_id :: "db \<Rightarrow> string \<Rightarrow> family option" where
  "family_by_id D i = find (\<lambda>f. fam_id f = i) (families D)"

definition family_by_slug :: "db \<Rightarrow> string \<Rightarrow> family option" where
  "family_by_slug D s = find (\<lambda>f. fam_slug f = s) (families D)"

definition caretaker_by_id :: "db \<Rightarrow> string \<Rightarrow> caretaker option" where
  "caretaker_by_id D i = find (\<lambda>c. crt_id c = i) (caretakers D)"

definition account_by_id :: "db \<Rightarrow> string \<Rightarrow> account option" where
  "account_by_id D i = find (\<lambda>a. acc_id a = i) (accounts D)"

definition account_of_family :: "db \<Rightarrow> string \<Rightarrow> account option" where
  "account_of_family D fid = find (\<lambda>a. acc_familyId a = Some fid) (accounts D)"

definition deviceToken_by_token :: "db \<Rightarrow> string \<Rightarrow> device_token option" where
  "deviceToken_by_token D t = find (\<lambda>r. dt_token r = t) (deviceTokens D)"

text \<open>The relations \<^verbatim>\<open>account.family\<close> and \<^verbatim>\<open>account.caretaker\<close> of an included account.\<close>

definition account_family :: "db \<Rightarrow> account \<Rightarrow> family option" where
  "account_family D a = (case acc_familyId a of None \<Rightarrow> None | Some fid \<Rightarrow> family_by_id D fid)"

definition account_caretaker :: "db \<Rightarrow> account \<Rightarrow> caretaker option" where
  "account_caretaker D a =
     (case acc_caretakerId a of None \<Rightarrow> None | Some cid \<Rightarrow> caretaker_by_id D cid)"

definition caretaker_family :: "db \<Rightarrow> caretaker \<Rightarrow> family option" where
  "caretaker_family D c = (case crt_familyId c of None \<Rightarrow> None | Some fid \<Rightarrow> family_by_id D fid)"

section \<open>Tokens, requests and results\<close>

text \<open>
  The claims of a decoded JSON web token, as far as the code reads them. The flags
  \<^verbatim>\<open>isSetupAuth\<close> and \<^verbatim>\<open>isAccountAuth\<close> are only tested for truthiness.
\<close>

record jwt_payload =
  p_isSetupAuth :: bool
  p_setupToken :: "string option"
  p_isAccountAuth :: bool
  p_accountId :: "string option"
  p_accountEmail :: "string option"
  p_id :: "string option"
  p_name :: "string option"
  p_type :: "string option"
  p_role :: "string option"
  p_familyId :: "string option"
  p_familySlug :: "string option"
  p_isSysAdmin :: "bool option"
  p_authType :: "string option"
  p_exp :: "int option"

text \<open>
  The libraries and built-ins whose code is not part of the repository are parameters:
  \<open>jwt_verify token secret now\<close> is \<^verbatim>\<open>jwt.verify\<close> (\<open>None\<close> when it throws),
  \<open>jwt_decode\<close> is \<^verbatim>\<open>jwt.decode\<close> (\<open>None\<close> for \<^verbatim>\<open>null\<close>), \<open>jwt_sign payload secret\<close> is
  \<^verbatim>\<open>jwt.sign\<close> called without options. \<open>parseFloat\<close> is \<open>None\<close> for \<^verbatim>\<open>NaN\<close> and
  \<open>parseDate\<close> is \<open>None\<close> for an invalid date; \<open>showNumber\<close> and \<open>showValue\<close> are the
  conversions to a string inside a template literal. \<open>serializeURL\<close> is
  \<^verbatim>\<open>String(new URL(url))\<close>, which \<^verbatim>\<open>NextResponse.redirect\<close> puts into the
  \<^verbatim>\<open>Location\<close> header: the URL as the parser reads it, not the string the route built.
  \<open>insensitiveMode\<close> is the comparison that a filter with \<^verbatim>\<open>mode: 'insensitive'\<close> applies,
  and \<open>None\<close> when the client of the store rejects that mode: the client of the SQLite
  store of the migration does, so that there every query with such a filter throws. The
  \<open>accepts\<close> functions say which rows of a log the store takes: the routes pass values of
  the body to it unchecked, and the store validates them.
\<close>

record lib =
  jwt_verify :: "string \<Rightarrow> string \<Rightarrow> time \<Rightarrow> jwt_payload option"
  jwt_decode :: "string \<Rightarrow> jwt_payload option"
  jwt_sign :: "jwt_payload \<Rightarrow> string \<Rightarrow> string"
  toLowerCase :: "string \<Rightarrow> string"
  trim :: "string \<Rightarrow> string"
  parseFloat :: "jsval \<Rightarrow> rat option"
  parseDate :: "jsval \<Rightarrow> time option"
  showNumber :: "rat \<Rightarrow> string"
  showValue :: "jsval \<Rightarrow> string"
  encodeURIComponent :: "string \<Rightarrow> string"
  serializeURL :: "string \<Rightarrow> string"
  insensitiveMode :: "(string \<Rightarrow> string \<Rightarrow> bool) option"
  acceptsFeedLog :: "feed_log \<Rightarrow> bool"
  acceptsDiaperLog :: "diaper_log \<Rightarrow> bool"
  acceptsSleepLog :: "sleep_log \<Rightarrow> bool"
  acceptsMedicineLog :: "medicine_log \<Rightarrow> bool"

text \<open>
  What a call reads from outside the store: the clock, \<^verbatim>\<open>process.env\<close>, and the values
  the platform draws for a new row (\<^verbatim>\<open>randomBytes(32).toString('hex')\<close> and the default
  primary key).
\<close>

record env =
  now :: time
  DEPLOYMENT_MODE :: "string option"
  JWT_SECRET :: "string option"
  randomToken :: string
  newId :: string

definition getJwtSecret :: "env \<Rightarrow> string" where
  "getJwtSecret E = or_else (JWT_SECRET E) ''baby-tracker-jwt-secret''"

text \<open>
  The referer header: absent (or empty), not a URL (\<^verbatim>\<open>new URL\<close> throws), or a URL whose
  path has the given non-empty segments.
\<close>

datatype referer = NoReferer | BadReferer | RefererPath "string list"

text \<open>
  A request: the \<^verbatim>\<open>Authorization\<close> header, the \<^verbatim>\<open>caretakerId\<close> cookie, the query
  parameters \<^verbatim>\<open>familyId\<close> and \<^verbatim>\<open>id\<close>, the non-empty segments of the URL's path, the
  referer, the origin of the URL, and the body: as JSON, \<open>None\<close> when \<^verbatim>\<open>req.json()\<close>
  throws or gives a value that cannot be destructured, else the fields that the routes read
  from it (\<open>JUndefined\<close> for a field that is absent); as form data, \<open>None\<close> when
  \<^verbatim>\<open>req.formData()\<close> throws, else the text fields of the form.
\<close>

record request =
  req_authorization :: "string option"
  req_cookie_caretakerId :: "string option"
  req_query_familyId :: "string option"
  req_query_id :: "string option"
  req_pathSegments :: "string list"
  req_referer :: referer
  req_origin :: string
  req_body :: "(string \<Rightarrow> jsval) option"
  req_form :: "(string \<Rightarrow> string option) option"

record auth_result =
  authenticated :: bool
  caretakerId :: "string option"
  caretakerType :: "string option"
  caretakerRole :: "string option"
  familyId :: "string option"
  familySlug :: "string option"
  isSysAdmin :: "bool option"
  isSetupAuth :: "bool option"
  setupToken :: "string option"
  authType :: "string option"
  isAccountAuth :: "bool option"
  accountId :: "string option"
  accountEmail :: "string option"
  isAccountOwner :: "bool option"
  verified :: "bool option"
  betaparticipant :: "bool option"
  isExpired :: "bool option"
  trialEnds :: "time option"
  planExpires :: "time option"
  planType :: "string option"
  error :: "string option"

text \<open>The object literal with no field set but \<^verbatim>\<open>authenticated\<close>.\<close>

definition blank :: "bool \<Rightarrow> auth_result" where
  "blank a = \<lparr> authenticated = a, caretakerId = None, caretakerType = None,
     caretakerRole = None, familyId = None, familySlug = None, isSysAdmin = None,
     isSetupAuth = None, setupToken = None, authType = None, isAccountAuth = None,
     accountId = None, accountEmail = None, isAccountOwner = None, verified = None,
     betaparticipant = None, isExpired = None, trialEnds = None, planExpires = None,
     planType = None, error = None \<rparr>"

definition rejected :: "string \<Rightarrow> auth_result" where
  "rejected e = (blank False) \<lparr> error := Some e \<rparr>"

section \<open>The token blacklist\<close>

text \<open>
  \<^verbatim>\<open>tokenBlacklist\<close> is a \<^verbatim>\<open>Map<string, number>\<close> from a token to its expiry in
  milliseconds: its entries in the order of insertion, one entry for a key. \<open>bl_has\<close>,
  \<open>bl_set\<close> and \<open>bl_delete\<close> are \<^verbatim>\<open>has\<close>, \<^verbatim>\<open>set\<close> and \<^verbatim>\<open>delete\<close>.
\<close>

type_synonym blacklist = "(string \<times> time) list"

definition bl_has :: "blacklist \<Rightarrow> string \<Rightarrow> bool" where
  "bl_has bl token = (token \<in> set (map fst bl))"

fun bl_set :: "string \<Rightarrow> time \<Rightarrow> blacklist \<Rightarrow> blacklist" where
  "bl_set token expiry [] = [(token, expiry)]"
| "bl_set token expiry ((k, v) # bl) =
     (if k = token then (token, expiry) # bl else (k, v) # bl_set token expiry bl)"

definition bl_delete :: "string \<Rightarrow> blacklist \<Rightarrow> blacklist" where
  "bl_delete token bl = filter (\<lambda>(k, v). k \<noteq> token) bl"

text \<open>
  The body of the hourly timer, run at time \<open>t\<close>: \<^verbatim>\<open>forEach\<close> over the entries that the
  map has when the timer fires, deleting from the map.
\<close>

definition cleanup :: "time \<Rightarrow> blacklist \<Rightarrow> blacklist" where
  "cleanup t bl =
     fold (\<lambda>(token, expiry) m. if t > expiry then bl_delete token m else m) bl bl"

definition invalidateToken :: "lib \<Rightarrow> blacklist \<Rightarrow> string \<Rightarrow> bool \<times> blacklist" where
  "invalidateToken L bl token =
     (case jwt_decode L token of
        None \<Rightarrow> (False, bl)
      | Some decoded \<Rightarrow>
          (case p_exp decoded of
             None \<Rightarrow> (False, bl)
           | Some e \<Rightarrow> if e = 0 then (False, bl) else (True, bl_set token (e * 1000) bl)))"

section \<open>getAuthenticatedUser\<close>

text \<open>
  The expiration computed from the trial and plan dates: the \<^verbatim>\<open>if / else if / else if\<close>
  chain that the three branches of \<^verbatim>\<open>getAuthenticatedUser\<close> repeat, with
  \<^verbatim>\<open>isExpired\<close> starting as \<^verbatim>\<open>false\<close>.
\<close>

definition trial_plan_expired :: "time \<Rightarrow> account \<Rightarrow> bool" where
  "trial_plan_expired t a =
     (case acc_trialEnds a of
        Some trialEndDate \<Rightarrow> t > trialEndDate
      | None \<Rightarrow>
          (case acc_planExpires a of
             Some planEndDate \<Rightarrow> t > planEndDate
           | None \<Rightarrow> if \<not> truthy (acc_planType a) then True else False))"

definition isSaasMode :: "env \<Rightarrow> bool" where
  "isSaasMode E = (DEPLOYMENT_MODE E = Some ''saas'')"

text \<open>The branch for a setup token.\<close>

definition setup_result :: "jwt_payload \<Rightarrow> auth_result" where
  "setup_result decoded = (blank True) \<lparr> caretakerId := None, caretakerType := Some ''Setup'',
     caretakerRole := Some ''ADMIN'', familyId := None, familySlug := None,
     isSysAdmin := Some False, isSetupAuth := Some True, setupToken := p_setupToken decoded \<rparr>"

text \<open>
  The branch for an account token. \<^verbatim>\<open>findUnique\<close> rejects a \<^verbatim>\<open>where\<close> with no id, which
  the inner \<^verbatim>\<open>catch\<close> turns into a failure.
\<close>

definition account_result :: "env \<Rightarrow> db \<Rightarrow> jwt_payload \<Rightarrow> auth_result" where
  "account_result E D decoded =
     (case p_accountId decoded of
        None \<Rightarrow> rejected ''Failed to verify account status''
      | Some aid \<Rightarrow>
     (case account_by_id D aid of
        None \<Rightarrow> rejected ''Account not found''
      | Some a \<Rightarrow>
          if acc_closed a then rejected ''Account is closed''
          else
            (let fam = account_family D a;
                 expired = (if isSaasMode E \<and> fam \<noteq> None \<and> \<not> acc_betaparticipant a
                            then trial_plan_expired (now E) a else False);
                 common = (blank True) \<lparr> isAccountAuth := Some True,
                    accountId := p_accountId decoded, accountEmail := p_accountEmail decoded,
                    isAccountOwner := Some True, verified := Some (acc_verified a),
                    betaparticipant := Some (acc_betaparticipant a), isExpired := Some expired,
                    trialEnds := acc_trialEnds a, planExpires := acc_planExpires a,
                    planType := acc_planType a \<rparr>
             in case account_caretaker D a of
                  Some c \<Rightarrow> common \<lparr> caretakerId := Some (crt_id c),
                     caretakerType := Some (or_else (crt_type c) ''Account Owner''),
                     caretakerRole := Some (crt_role c),
                     familyId := or_null (map_option fam_id fam),
                     familySlug := or_null (map_option fam_slug fam) \<rparr>
                | None \<Rightarrow>
                    (case fam of
                       None \<Rightarrow> common \<lparr> caretakerId := p_accountId decoded,
                          caretakerType := Some ''ACCOUNT'', caretakerRole := Some ''OWNER'',
                          familyId := None, familySlug := None \<rparr>
                     | Some f \<Rightarrow> common \<lparr> caretakerId := p_accountId decoded,
                          caretakerType := Some ''ACCOUNT'', caretakerRole := Some ''OWNER'',
                          familyId := Some (fam_id f), familySlug := Some (fam_slug f) \<rparr>))))"

text \<open>
  The expiration metadata of the account of a family, shared by the branch for a regular
  token and the branch for the cookie: \<open>None\<close> when the account is closed.
\<close>

definition family_account_meta :: "env \<Rightarrow> account \<Rightarrow> auth_result \<Rightarrow> auth_result option" where
  "family_account_meta E a r =
     (if acc_closed a then None
      else Some (r \<lparr> betaparticipant := Some (acc_betaparticipant a),
             trialEnds := acc_trialEnds a, planExpires := acc_planExpires a,
             planType := acc_planType a,
             isExpired := Some (if isSaasMode E \<and> \<not> acc_betaparticipant a
                                then trial_plan_expired (now E) a else False) \<rparr>))"

definition no_account_meta :: "auth_result \<Rightarrow> auth_result" where
  "no_account_meta r = r \<lparr> betaparticipant := Some False, isExpired := Some False,
     trialEnds := None, planExpires := None, planType := None \<rparr>"

text \<open>The branch for a regular (PIN based) token.\<close>

definition regular_result :: "env \<Rightarrow> db \<Rightarrow> jwt_payload \<Rightarrow> auth_result" where
  "regular_result E D decoded =
     (let r = (blank True) \<lparr>
            caretakerId := (if is_true (p_isSysAdmin decoded) then None else p_id decoded),
            caretakerType := p_type decoded, caretakerRole := p_role decoded,
            familyId := p_familyId decoded, familySlug := p_familySlug decoded,
            isSysAdmin := Some (is_true (p_isSysAdmin decoded)),
            authType := Some (or_else (p_authType decoded) ''CARETAKER'') \<rparr>;
          acct = (case or_null (p_familyId decoded) of
                    None \<Rightarrow> None
                  | Some fid \<Rightarrow>
                      if is_true (p_isSysAdmin decoded) then None
                      else (case family_by_id D fid of
                              None \<Rightarrow> None
                            | Some f \<Rightarrow> account_of_family D (fam_id f)))
      in case acct of
           None \<Rightarrow> no_account_meta r
         | Some a \<Rightarrow>
             (case family_account_meta E a r of
                None \<Rightarrow> rejected ''Family account is closed''
              | Some r' \<Rightarrow> r'))"

text \<open>The branch for the \<^verbatim>\<open>caretakerId\<close> cookie; \<open>None\<close> when no such caretaker exists.\<close>

definition cookie_result :: "env \<Rightarrow> db \<Rightarrow> string \<Rightarrow> auth_result option" where
  "cookie_result E D cid =
     (case find (\<lambda>c. crt_id c = cid \<and> crt_deletedAt c = None) (caretakers D) of
        None \<Rightarrow> None
      | Some c \<Rightarrow>
          (let fam = caretaker_family D c;
               r = (blank True) \<lparr> caretakerId := Some (crt_id c), caretakerType := crt_type c,
                      caretakerRole := Some (or_else (Some (crt_role c)) ''USER''),
                      familyId := crt_familyId c, familySlug := map_option fam_slug fam,
                      isSysAdmin := Some False, authType := Some ''CARETAKER'' \<rparr>
           in case (case fam of None \<Rightarrow> None | Some f \<Rightarrow> account_of_family D (fam_id f)) of
                None \<Rightarrow> Some (no_account_meta r)
              | Some a \<Rightarrow>
                  (case family_account_meta E a r of
                     None \<Rightarrow> Some (rejected ''Family account is closed'')
                   | Some r' \<Rightarrow> Some r')))"

text \<open>
  The token of the \<^verbatim>\<open>Authorization\<close> header, \<^verbatim>\<open>authHeader.substring(7)\<close>, when the
  header starts with \<^verbatim>\<open>'Bearer '\<close>.
\<close>

definition bearer_token :: "request \<Rightarrow> string option" where
  "bearer_token req =
     (case req_authorization req of
        None \<Rightarrow> None
      | Some authHeader \<Rightarrow>
          if authHeader \<noteq> [] \<and> startsWith authHeader ''Bearer '' then Some (drop 7 authHeader)
          else None)"

text \<open>
  The resolver. A token that is present decides the result alone; the cookie is read only
  when there is no token. The \<^verbatim>\<open>catch\<close> around \<^verbatim>\<open>jwt.verify\<close> is the case \<open>None\<close> of
  \<open>jwt_verify\<close>. The \<^verbatim>\<open>catch\<close> around the search for the family of a regular token and
  the outermost \<^verbatim>\<open>catch\<close> handle a query that the store fails to answer, which no
  statement of this model does.
\<close>

definition getAuthenticatedUser :: "lib \<Rightarrow> env \<Rightarrow> blacklist \<Rightarrow> db \<Rightarrow> request \<Rightarrow> auth_result" where
  "getAuthenticatedUser L E bl D req =
     (case or_null (bearer_token req) of
        Some token \<Rightarrow>
          if bl_has bl token then rejected ''Token has been invalidated''
          else
            (case jwt_verify L token (getJwtSecret E) (now E) of
               None \<Rightarrow> rejected ''Invalid or expired token''
             | Some decoded \<Rightarrow>
                 if p_isSetupAuth decoded \<and> truthy (p_setupToken decoded) then setup_result decoded
                 else if p_isAccountAuth decoded then account_result E D decoded
                 else regular_result E D decoded)
      | None \<Rightarrow>
          (case (case or_null (req_cookie_caretakerId req) of
                   None \<Rightarrow> None
                 | Some cid \<Rightarrow> cookie_result E D cid) of
             Some r \<Rightarrow> r
           | None \<Rightarrow> rejected ''No valid authentication found''))"

section \<open>Responses and the wrappers\<close>

record masked_token =
  mt_id :: string
  tokenPreview :: string
  mt_name :: string
  caretakerName :: string
  mt_expiresAt :: "time option"
  mt_revokedAt :: "time option"
  mt_lastUsedAt :: "time option"
  mt_createdAt :: time
  isActive :: bool

text \<open>
  The \<^verbatim>\<open>data\<close> of a successful response: the created device token (id, token, name,
  createdAt, expiresAt), the listing, the result of the magic link (token, familySlug,
  caretakerId, caretakerName) and the message of the voice route.
\<close>

datatype payload =
    Created string string string time "time option"
  | Listing "masked_token list"
  | MagicLink string "string option" "string option" string
  | Message string

text \<open>
  \<^verbatim>\<open>NextResponse.json(body, { status })\<close> with the body \<^verbatim>\<open>{ success, error, data }\<close>, and
  \<^verbatim>\<open>NextResponse.redirect(url, status)\<close>.
\<close>

datatype response =
    Json nat bool "string option" "payload option"
  | Redirect nat string

definition failure :: "nat \<Rightarrow> string \<Rightarrow> response" where
  "failure code e = Json code False (Some e) None"

definition ok :: "payload option \<Rightarrow> response" where
  "ok d = Json 200 True None d"

text \<open>
  A handler runs on the store and returns its response with the store as it leaves it;
  a wrapper that rejects a request leaves the store as it is.
\<close>

type_synonym handler = "request \<Rightarrow> db \<Rightarrow> response \<times> db"

type_synonym context_handler = "request \<Rightarrow> auth_result \<Rightarrow> db \<Rightarrow> response \<times> db"

definition withAuth :: "lib \<Rightarrow> env \<Rightarrow> blacklist \<Rightarrow> handler \<Rightarrow> handler" where
  "withAuth L E bl handler req D =
     (let authResult = getAuthenticatedUser L E bl D req in
      if \<not> authenticated authResult then (failure 401 ''Authentication required'', D)
      else handler req D)"

definition withAdminAuth :: "lib \<Rightarrow> env \<Rightarrow> blacklist \<Rightarrow> handler \<Rightarrow> handler" where
  "withAdminAuth L E bl handler req D =
     (let authResult = getAuthenticatedUser L E bl D req in
      if \<not> authenticated authResult then (failure 401 ''Authentication required'', D)
      else
        (let isSystemCaretaker =
               (case or_null (caretakerId authResult) of
                  None \<Rightarrow> False
                | Some cid \<Rightarrow>
                    find (\<lambda>c. crt_id c = cid \<and> crt_loginId c = ''00'' \<and> crt_deletedAt c = None)
                      (caretakers D) \<noteq> None)
         in if caretakerRole authResult \<noteq> Some ''ADMIN'' \<and> \<not> isSystemCaretaker
                 \<and> \<not> is_true (isSysAdmin authResult)
            then (failure 403 ''Admin access required'', D)
            else handler req D))"

text \<open>
  In \<^verbatim>\<open>withAdminAuth\<close> and \<^verbatim>\<open>withAuthContext\<close> too, a \<^verbatim>\<open>catch\<close> around a query is
  reached only when the store fails to answer; the \<^verbatim>\<open>catch\<close> around \<^verbatim>\<open>new URL(referer)\<close>
  is the case \<open>BadReferer\<close>.

  The test that a first path segment names a family: not an API, manager or setup route.
\<close>

definition family_route :: "string list \<Rightarrow> string option" where
  "family_route segs =
     (case segs of
        [] \<Rightarrow> None
      | s # _ \<Rightarrow> if \<not> startsWith s ''api'' \<and> \<not> startsWith s ''family-manager''
                    \<and> \<not> startsWith s ''setup'' then Some s else None)"

definition family_id_of_route :: "db \<Rightarrow> string list \<Rightarrow> string option" where
  "family_id_of_route D segs =
     (case family_route segs of
        None \<Rightarrow> None
      | Some slug \<Rightarrow> map_option fam_id (family_by_slug D slug))"

definition withAuthContext :: "lib \<Rightarrow> env \<Rightarrow> blacklist \<Rightarrow> context_handler \<Rightarrow> handler" where
  "withAuthContext L E bl handler req D =
     (let authResult = getAuthenticatedUser L E bl D req in
      if \<not> authenticated authResult then (failure 401 ''Authentication required'', D)
      else if is_true (isSetupAuth authResult) \<and> truthy (setupToken authResult) then
        (case or_null (req_query_familyId req) of
           None \<Rightarrow> handler req authResult D
         | Some fid \<Rightarrow>
             (case find (\<lambda>s. Some (fs_token s) = setupToken authResult) (familySetups D) of
                None \<Rightarrow> (failure 403 ''Setup token is not authorized for this family'', D)
              | Some st \<Rightarrow>
                  if fs_familyId st = Some fid \<or> \<not> truthy (fs_familyId st)
                  then handler req (authResult \<lparr> familyId := Some fid \<rparr>) D
                  else (failure 403 ''Setup token is not authorized for this family'', D)))
      else if is_true (isSysAdmin authResult) then
        (let fid1 = or_null (req_query_familyId req);
             fid2 = (if fid1 = None then family_id_of_route D (req_pathSegments req) else fid1);
             fid3 = (if \<not> truthy fid2 then
                       (case req_referer req of
                          RefererPath segs \<Rightarrow>
                            (case family_id_of_route D segs of None \<Rightarrow> fid2 | Some i \<Rightarrow> Some i)
                        | _ \<Rightarrow> fid2)
                     else fid2)
         in handler req (authResult \<lparr> familyId := (if truthy fid3 then fid3 else familyId authResult) \<rparr>) D)
      else handler req authResult D)"

section \<open>validateDeviceToken\<close>

text \<open>
  The update of \<^verbatim>\<open>lastUsedAt\<close> is issued before the result is built, so it also happens
  when building the result throws because the included caretaker is missing; that
  \<^verbatim>\<open>TypeError\<close> is what the \<^verbatim>\<open>catch\<close> of the function handles in this model.
\<close>

definition touch :: "time \<Rightarrow> string \<Rightarrow> db \<Rightarrow> db" where
  "touch t i D = D \<lparr> deviceTokens :=
     map (\<lambda>r. if dt_id r = i then r \<lparr> dt_lastUsedAt := Some t \<rparr> else r) (deviceTokens D) \<rparr>"

definition validateDeviceToken :: "env \<Rightarrow> db \<Rightarrow> string \<Rightarrow> auth_result \<times> db" where
  "validateDeviceToken E D token =
     (case deviceToken_by_token D token of
        None \<Rightarrow> (rejected ''Invalid device token'', D)
      | Some deviceToken \<Rightarrow>
          if dt_revokedAt deviceToken \<noteq> None then (rejected ''Device token has been revoked'', D)
          else if (case dt_expiresAt deviceToken of None \<Rightarrow> False | Some e \<Rightarrow> now E > e)
          then (rejected ''Device token has expired'', D)
          else
            (let D' = touch (now E) (dt_id deviceToken) D in
             case caretaker_by_id D (dt_caretakerId deviceToken) of
               None \<Rightarrow> (rejected ''Device token validation failed'', D')
             | Some c \<Rightarrow>
                 ((blank True) \<lparr> caretakerId := Some (dt_caretakerId deviceToken),
                     caretakerType := crt_type c, caretakerRole := Some (crt_role c),
                     familyId := Some (dt_familyId deviceToken),
                     familySlug := or_null (map_option fam_slug
                                     (family_by_id D (dt_familyId deviceToken))),
                     isSysAdmin := Some False, authType := Some ''DEVICE_TOKEN'' \<rparr>, D')))"

section \<open>The route of the device tokens\<close>

definition isAdmin :: "auth_result \<Rightarrow> bool" where
  "isAdmin authContext = (\<not> (caretakerRole authContext \<noteq> Some ''ADMIN''
                              \<and> \<not> is_true (isSysAdmin authContext)))"

text \<open>
  \<^verbatim>\<open>prisma.deviceToken.create\<close>: \<open>None\<close> when the store rejects the row (no caretaker id
  to connect, a caretaker or family that does not exist, a token or an id already in use).
\<close>

definition create_deviceToken :: "db \<Rightarrow> device_token \<Rightarrow> db option" where
  "create_deviceToken D r =
     (if caretaker_by_id D (dt_caretakerId r) = None \<or> family_by_id D (dt_familyId r) = None
         \<or> dt_token r \<in> set (map dt_token (deviceTokens D))
         \<or> dt_id r \<in> set (map dt_id (deviceTokens D))
      then None
      else Some (D \<lparr> deviceTokens := deviceTokens D @ [r] \<rparr>))"

definition handlePost :: "lib \<Rightarrow> env \<Rightarrow> context_handler" where
  "handlePost L E req authContext D =
     (if \<not> isAdmin authContext
      then (failure 403 ''Admin access required to manage device tokens'', D)
      else case or_null (familyId authContext) of
        None \<Rightarrow> (failure 403 ''User is not associated with a family.'', D)
      | Some fid \<Rightarrow>
     (case req_body req of
        None \<Rightarrow> (failure 500 ''Failed to create device token'', D)
      | Some body \<Rightarrow>
     (case body ''name'' of
        JStr name \<Rightarrow>
          if name = [] \<or> trim L name = [] then (failure 400 ''Device name is required'', D)
          else
            (let expires = (if js_truthy (body ''expiresAt'')
                            then Some (parseDate L (body ''expiresAt'')) else None)
             in case (caretakerId authContext, expires) of
                  (None, _) \<Rightarrow> (failure 500 ''Failed to create device token'', D)
                | (_, Some None) \<Rightarrow> (failure 500 ''Failed to create device token'', D)
                | (Some cid, _) \<Rightarrow>
                    (let row = \<lparr> dt_id = newId E, dt_token = randomToken E, dt_name = trim L name,
                                 dt_familyId = fid, dt_caretakerId = cid,
                                 dt_expiresAt = (case expires of None \<Rightarrow> None | Some e \<Rightarrow> e),
                                 dt_revokedAt = None, dt_lastUsedAt = None,
                                 dt_createdAt = now E \<rparr>
                     in case create_deviceToken D row of
                          None \<Rightarrow> (failure 500 ''Failed to create device token'', D)
                        | Some D' \<Rightarrow>
                            (ok (Some (Created (dt_id row) (dt_token row) (dt_name row)
                                   (dt_createdAt row) (dt_expiresAt row))), D')))
      | _ \<Rightarrow> (failure 400 ''Device name is required'', D))))"

text \<open>
  The rows of a family, newest first (the order among rows created at the same time is the
  store's), and the mask of one row.
\<close>

definition family_tokens :: "db \<Rightarrow> string \<Rightarrow> device_token list" where
  "family_tokens D fid =
     sort_key (\<lambda>r. - dt_createdAt r) (filter (\<lambda>r. dt_familyId r = fid) (deviceTokens D))"

definition mask :: "time \<Rightarrow> db \<Rightarrow> device_token \<Rightarrow> masked_token option" where
  "mask t D r =
     (case caretaker_by_id D (dt_caretakerId r) of
        None \<Rightarrow> None
      | Some c \<Rightarrow> Some \<lparr> mt_id = dt_id r, tokenPreview = take 8 (dt_token r) @ ''...'',
          mt_name = dt_name r, caretakerName = crt_name c, mt_expiresAt = dt_expiresAt r,
          mt_revokedAt = dt_revokedAt r, mt_lastUsedAt = dt_lastUsedAt r,
          mt_createdAt = dt_createdAt r,
          isActive = (dt_revokedAt r = None
                      \<and> (case dt_expiresAt r of None \<Rightarrow> True | Some e \<Rightarrow> t < e)) \<rparr>)"

text \<open>\<open>those\<close> is \<open>None\<close> as soon as one row has no caretaker: the \<^verbatim>\<open>map\<close> throws there.\<close>

definition handleGet :: "lib \<Rightarrow> env \<Rightarrow> context_handler" where
  "handleGet L E req authContext D =
     (if \<not> isAdmin authContext then (failure 403 ''Admin access required'', D)
      else case or_null (familyId authContext) of
        None \<Rightarrow> (failure 403 ''User is not associated with a family.'', D)
      | Some fid \<Rightarrow>
          (case those (map (mask (now E) D) (family_tokens D fid)) of
             None \<Rightarrow> (failure 500 ''Failed to list device tokens'', D)
           | Some maskedTokens \<Rightarrow> (ok (Some (Listing maskedTokens)), D)))"

definition revoke :: "time \<Rightarrow> string \<Rightarrow> db \<Rightarrow> db" where
  "revoke t i D = D \<lparr> deviceTokens :=
     map (\<lambda>r. if dt_id r = i then r \<lparr> dt_revokedAt := Some t \<rparr> else r) (deviceTokens D) \<rparr>"

definition handleDelete :: "lib \<Rightarrow> env \<Rightarrow> context_handler" where
  "handleDelete L E req authContext D =
     (if \<not> isAdmin authContext then (failure 403 ''Admin access required'', D)
      else case or_null (familyId authContext) of
        None \<Rightarrow> (failure 403 ''User is not associated with a family.'', D)
      | Some fid \<Rightarrow>
          (case or_null (req_query_id req) of
             None \<Rightarrow> (failure 400 ''Device token ID is required'', D)
           | Some i \<Rightarrow>
               (case find (\<lambda>r. dt_id r = i \<and> dt_familyId r = fid) (deviceTokens D) of
                  None \<Rightarrow> (failure 404 ''Device token not found'', D)
                | Some existing \<Rightarrow> (ok None, revoke (now E) i D))))"

definition GET_deviceTokens :: "lib \<Rightarrow> env \<Rightarrow> blacklist \<Rightarrow> handler" where
  "GET_deviceTokens L E bl = withAuthContext L E bl (handleGet L E)"

definition POST_deviceTokens :: "lib \<Rightarrow> env \<Rightarrow> blacklist \<Rightarrow> handler" where
  "POST_deviceTokens L E bl = withAuthContext L E bl (handlePost L E)"

definition DELETE_deviceTokens :: "lib \<Rightarrow> env \<Rightarrow> blacklist \<Rightarrow> handler" where
  "DELETE_deviceTokens L E bl = withAuthContext L E bl (handleDelete L E)"

section \<open>The route of the magic link\<close>

text \<open>
  \<^verbatim>\<open>POST /api/auth/magic-link\<close>. The payload that is signed has no \<^verbatim>\<open>exp\<close> claim, and
  \<^verbatim>\<open>jwt.sign\<close> is called with no option. The secret is the one \<open>getJwtSecret\<close> reads
  (the route reads it once, when the module is loaded).
\<close>

definition magicLink_payload :: "db \<Rightarrow> auth_result \<Rightarrow> jwt_payload" where
  "magicLink_payload D authResult =
     (let caretaker = (case or_null (caretakerId authResult) of
                         None \<Rightarrow> None
                       | Some cid \<Rightarrow> caretaker_by_id D cid)
      in \<lparr> p_isSetupAuth = False, p_setupToken = None, p_isAccountAuth = False,
           p_accountId = None, p_accountEmail = None,
           p_id = Some (or_else (caretakerId authResult) ''device''),
           p_name = Some (case caretaker of None \<Rightarrow> ''User'' | Some c \<Rightarrow> crt_name c),
           p_type = (case caretaker of None \<Rightarrow> None | Some c \<Rightarrow> crt_type c),
           p_role = Some (case caretaker of None \<Rightarrow> ''USER'' | Some c \<Rightarrow> crt_role c),
           p_familyId = familyId authResult, p_familySlug = familySlug authResult,
           p_isSysAdmin = None, p_authType = Some ''DEVICE_TOKEN'', p_exp = None \<rparr>)"

definition POST_magicLink :: "lib \<Rightarrow> env \<Rightarrow> handler" where
  "POST_magicLink L E req D =
     (case req_body req of
        None \<Rightarrow> (failure 500 ''Authentication failed'', D)
      | Some body \<Rightarrow>
     (case body ''token'' of
        JStr token \<Rightarrow>
          if token = [] then (failure 400 ''Device token is required'', D)
          else
            (case validateDeviceToken E D token of (authResult, D') \<Rightarrow>
               if \<not> authenticated authResult \<or> \<not> truthy (familyId authResult)
               then (failure 401 (or_else (error authResult) ''Invalid or expired device token''), D')
               else
                 (let payload = magicLink_payload D' authResult;
                      jwtToken = jwt_sign L payload (getJwtSecret E)
                  in (ok (Some (MagicLink jwtToken (or_null (familySlug authResult))
                                (or_null (caretakerId authResult))
                                (case p_name payload of None \<Rightarrow> [] | Some n \<Rightarrow> n))), D')))
      | _ \<Rightarrow> (failure 400 ''Device token is required'', D)))"

section \<open>The route of the voice assistant\<close>

text \<open>
  The helpers of \<^verbatim>\<open>POST /api/voice/log\<close>. A helper that calls \<^verbatim>\<open>toLowerCase\<close> on a
  value of the body throws when the value is truthy and not a string: \<open>None\<close>.
\<close>

definition resolveUnit :: "lib \<Rightarrow> jsval \<Rightarrow> string \<Rightarrow> string option" where
  "resolveUnit L unit defaultUnit =
     (if \<not> js_truthy unit then Some defaultUnit
      else case unit of
        JStr s \<Rightarrow>
          (let u = trim L (toLowerCase L s) in
           Some (if u \<in> set [''oz'', ''ounce'', ''ounces''] then ''OZ''
                 else if u \<in> set [''ml'', ''milliliter'', ''milliliters''] then ''ML''
                 else if u \<in> set [''tbsp'', ''tablespoon'', ''tablespoons''] then ''TBSP''
                 else if u \<in> set [''g'', ''gram'', ''grams''] then ''G''
                 else defaultUnit))
      | _ \<Rightarrow> None)"

definition resolveSide :: "lib \<Rightarrow> jsval \<Rightarrow> string option option" where
  "resolveSide L side =
     (if \<not> js_truthy side then Some None
      else case side of
        JStr x \<Rightarrow>
          (let s = trim L (toLowerCase L x) in
           Some (if s \<in> set [''left'', ''l''] then Some ''LEFT''
                 else if s \<in> set [''right'', ''r''] then Some ''RIGHT''
                 else if s \<in> set [''both'', ''b''] then Some ''BOTH''
                 else None))
      | _ \<Rightarrow> None)"

definition resolveDiaperType :: "lib \<Rightarrow> jsval \<Rightarrow> string option" where
  "resolveDiaperType L type =
     (if \<not> js_truthy type then Some ''WET''
      else case type of
        JStr x \<Rightarrow>
          (let t = trim L (toLowerCase L x) in
           Some (if t \<in> set [''wet'', ''pee''] then ''WET''
                 else if t \<in> set [''dirty'', ''poop'', ''soiled'', ''bm''] then ''DIRTY''
                 else if t \<in> set [''both'', ''mixed''] then ''BOTH''
                 else if t \<in> set [''dry'', ''clean''] then ''DRY''
                 else ''WET''))
      | _ \<Rightarrow> None)"

definition resolveSleepType :: "lib \<Rightarrow> jsval \<Rightarrow> string option" where
  "resolveSleepType L sleepType =
     (if \<not> js_truthy sleepType then Some ''NAP''
      else case sleepType of
        JStr x \<Rightarrow>
          (let t = trim L (toLowerCase L x) in
           Some (if t \<in> set [''nap'', ''napping''] then ''NAP''
                 else if t \<in> set [''night'', ''night_sleep'', ''night-sleep'', ''bedtime'', ''sleep'']
                 then ''NIGHT_SLEEP''
                 else ''NAP''))
      | _ \<Rightarrow> None)"

definition active_babies :: "db \<Rightarrow> string \<Rightarrow> baby list" where
  "active_babies D fid = filter (\<lambda>b. baby_familyId b = fid \<and> \<not> baby_inactive b) (babies D)"

text \<open>
  \<^verbatim>\<open>resolveBaby\<close>: the outer \<open>None\<close> is a query that the store rejects, because the name
  to compare with is not a string or because the client rejects \<^verbatim>\<open>mode: 'insensitive'\<close>.
  On the SQLite store of the migration every name that is given ends there, and the route
  answers 500.
\<close>

definition resolveBaby :: "lib \<Rightarrow> db \<Rightarrow> string \<Rightarrow> jsval \<Rightarrow> baby option option" where
  "resolveBaby L D fid babyName =
     (if js_truthy babyName then
        (case babyName of
           JStr n \<Rightarrow>
             (case insensitiveMode L of
                None \<Rightarrow> None
              | Some equals \<Rightarrow> Some (find (\<lambda>b. equals (baby_firstName b) n) (active_babies D fid)))
         | _ \<Rightarrow> None)
      else Some (case active_babies D fid of [b] \<Rightarrow> Some b | _ \<Rightarrow> None))"

fun join :: "string list \<Rightarrow> string" where
  "join [] = []"
| "join [x] = x"
| "join (x # y # ys) = x @ '', '' @ join (y # ys)"

definition success :: "string \<Rightarrow> response" where
  "success message = ok (Some (Message message))"

text \<open>\<^verbatim>\<open>Math.round\<close> of a number of milliseconds divided by 60000, and the remainder of JavaScript.\<close>

definition minutes_between :: "time \<Rightarrow> time \<Rightarrow> int" where
  "minutes_between t start = (t - start + 30000) div 60000"

definition js_rem :: "int \<Rightarrow> int \<Rightarrow> int" where
  "js_rem a b = (if a < 0 then - ((- a) mod b) else a mod b)"

definition latest_open_sleep :: "db \<Rightarrow> string \<Rightarrow> string \<Rightarrow> sleep_log option" where
  "latest_open_sleep D babyId fid =
     (case sort_key (\<lambda>s. - sl_startTime s)
             (filter (\<lambda>s. sl_babyId s = babyId \<and> sl_familyId s = fid \<and> sl_endTime s = None)
                (sleepLogs D)) of
        [] \<Rightarrow> None
      | s # _ \<Rightarrow> Some s)"

definition end_sleep :: "time \<Rightarrow> string \<Rightarrow> int \<Rightarrow> db \<Rightarrow> db" where
  "end_sleep t i minutes D = D \<lparr> sleepLogs :=
     map (\<lambda>s. if sl_id s = i then s \<lparr> sl_endTime := Some t, sl_duration := Some minutes \<rparr> else s)
       (sleepLogs D) \<rparr>"

definition create_feedLog :: "lib \<Rightarrow> db \<Rightarrow> feed_log \<Rightarrow> db option" where
  "create_feedLog L D r =
     (if acceptsFeedLog L r then Some (D \<lparr> feedLogs := feedLogs D @ [r] \<rparr>) else None)"

definition create_diaperLog :: "lib \<Rightarrow> db \<Rightarrow> diaper_log \<Rightarrow> db option" where
  "create_diaperLog L D r =
     (if acceptsDiaperLog L r then Some (D \<lparr> diaperLogs := diaperLogs D @ [r] \<rparr>) else None)"

definition create_sleepLog :: "lib \<Rightarrow> db \<Rightarrow> sleep_log \<Rightarrow> db option" where
  "create_sleepLog L D r =
     (if acceptsSleepLog L r \<and> sl_id r \<notin> set (map sl_id (sleepLogs D))
      then Some (D \<lparr> sleepLogs := sleepLogs D @ [r] \<rparr>) else None)"

definition create_medicineLog :: "lib \<Rightarrow> db \<Rightarrow> medicine_log \<Rightarrow> db option" where
  "create_medicineLog L D r =
     (if acceptsMedicineLog L r then Some (D \<lparr> medicineLogs := medicineLogs D @ [r] \<rparr>) else None)"

text \<open>
  The cases of the \<^verbatim>\<open>switch\<close> of the voice route, for a resolved baby. \<open>None\<close> is an
  exception, which the \<^verbatim>\<open>catch\<close> of the route answers; the store comes back as it was
  when the exception was thrown. The arguments are the body, the family and the caretaker
  of the device token, and the baby.
\<close>

type_synonym voice_case = "db \<Rightarrow> response option \<times> db"

definition voice_bottle ::
  "lib \<Rightarrow> env \<Rightarrow> (string \<Rightarrow> jsval) \<Rightarrow> string \<Rightarrow> string option \<Rightarrow> baby \<Rightarrow> voice_case" where
  "voice_bottle L E body fid cid b D =
     (let amount = body ''amount'';
          feedAmount = (if js_truthy amount then Some (parseFloat L amount) else None);
          defaultBottleUnit = (case find (\<lambda>s. set_familyId s = fid) (settingsRows D) of
                                 None \<Rightarrow> ''OZ''
                               | Some s \<Rightarrow> or_else (Some (set_defaultBottleUnit s)) ''OZ'')
      in case resolveUnit L (body ''unit'') defaultBottleUnit of
           None \<Rightarrow> (None, D)
         | Some feedUnit \<Rightarrow>
             (case create_feedLog L D \<lparr> fl_babyId = baby_id b, fl_time = now E,
                     fl_type = ''BOTTLE'', fl_amount = feedAmount, fl_unitAbbr = Some feedUnit,
                     fl_bottleType = (if js_truthy (body ''bottleType'') then body ''bottleType''
                                      else JNull),
                     fl_side = None, fl_caretakerId = cid, fl_familyId = fid \<rparr> of
                None \<Rightarrow> (None, D)
              | Some D' \<Rightarrow>
                  (Some (success
                     (case feedAmount of
                        Some (Some n) \<Rightarrow>
                          if n \<noteq> 0
                          then ''Logged bottle feeding for '' @ baby_firstName b @ '': ''
                                 @ showNumber L n @ '' '' @ toLowerCase L feedUnit
                          else ''Logged bottle feeding for '' @ baby_firstName b
                      | _ \<Rightarrow> ''Logged bottle feeding for '' @ baby_firstName b)), D')))"

definition voice_breast ::
  "lib \<Rightarrow> env \<Rightarrow> (string \<Rightarrow> jsval) \<Rightarrow> string \<Rightarrow> string option \<Rightarrow> baby \<Rightarrow> voice_case" where
  "voice_breast L E body fid cid b D =
     (case resolveSide L (body ''side'') of
        None \<Rightarrow> (None, D)
      | Some breastSide \<Rightarrow>
          (case create_feedLog L D \<lparr> fl_babyId = baby_id b, fl_time = now E,
                  fl_type = ''BREAST'', fl_amount = None, fl_unitAbbr = None,
                  fl_bottleType = JUndefined, fl_side = breastSide, fl_caretakerId = cid,
                  fl_familyId = fid \<rparr> of
             None \<Rightarrow> (None, D)
           | Some D' \<Rightarrow>
               (Some (success (''Logged nursing for '' @ baby_firstName b @
                  (case breastSide of
                     None \<Rightarrow> []
                   | Some s \<Rightarrow> '' ('' @ toLowerCase L s @ '')''))), D')))"

definition voice_diaper ::
  "lib \<Rightarrow> env \<Rightarrow> (string \<Rightarrow> jsval) \<Rightarrow> string \<Rightarrow> string option \<Rightarrow> baby \<Rightarrow> voice_case" where
  "voice_diaper L E body fid cid b D =
     (case resolveDiaperType L (body ''type'') of
        None \<Rightarrow> (None, D)
      | Some diaperType \<Rightarrow>
          (case create_diaperLog L D \<lparr> dl_babyId = baby_id b, dl_time = now E,
                  dl_type = diaperType, dl_caretakerId = cid, dl_familyId = fid \<rparr> of
             None \<Rightarrow> (None, D)
           | Some D' \<Rightarrow>
               (Some (success (''Logged '' @ toLowerCase L diaperType @ '' diaper for ''
                               @ baby_firstName b)), D')))"

definition voice_sleep_start ::
  "lib \<Rightarrow> env \<Rightarrow> (string \<Rightarrow> jsval) \<Rightarrow> string \<Rightarrow> string option \<Rightarrow> baby \<Rightarrow> string
     \<Rightarrow> voice_case" where
  "voice_sleep_start L E body fid cid b action D =
     (case resolveSleepType L (if js_truthy (body ''sleepType'') then body ''sleepType''
                               else JStr action) of
        None \<Rightarrow> (None, D)
      | Some resolvedSleepType \<Rightarrow>
          (case create_sleepLog L D \<lparr> sl_id = newId E, sl_babyId = baby_id b,
                  sl_startTime = now E, sl_endTime = None, sl_duration = None,
                  sl_type = resolvedSleepType, sl_caretakerId = cid, sl_familyId = fid \<rparr> of
             None \<Rightarrow> (None, D)
           | Some D' \<Rightarrow>
               (Some (success (''Started ''
                  @ (if resolvedSleepType = ''NAP'' then ''nap'' else ''sleep'')
                  @ '' for '' @ baby_firstName b)), D')))"

definition voice_sleep_end :: "lib \<Rightarrow> env \<Rightarrow> string \<Rightarrow> baby \<Rightarrow> voice_case" where
  "voice_sleep_end L E fid b D =
     (case latest_open_sleep D (baby_id b) fid of
        None \<Rightarrow>
          (Some (failure 400 (''No active sleep session found for '' @ baby_firstName b)), D)
      | Some activeSleep \<Rightarrow>
          (let durationMinutes = minutes_between (now E) (sl_startTime activeSleep);
               D' = end_sleep (now E) (sl_id activeSleep) durationMinutes D;
               hours = durationMinutes div 60;
               mins = js_rem durationMinutes 60;
               durationStr = (if hours > 0
                              then showNumber L (of_int hours) @ ''h ''
                                     @ showNumber L (of_int mins) @ ''m''
                              else showNumber L (of_int mins) @ '' minutes'')
           in (Some (success (baby_firstName b @ '' woke up after '' @ durationStr)), D')))"

text \<open>
  The message of the medicine case: \<^verbatim>\<open>doseUnit?.toLowerCase() || ''\<close> throws for a unit
  that is neither a string nor \<^verbatim>\<open>null\<close>.
\<close>

definition voice_medicine_reply ::
  "lib \<Rightarrow> medicine \<Rightarrow> baby \<Rightarrow> string \<Rightarrow> jsval \<Rightarrow> response option" where
  "voice_medicine_reply L med b dose doseUnit =
     (case doseUnit of
        JStr u \<Rightarrow>
          Some (success (''Logged '' @ med_name med @ '' for '' @ baby_firstName b @ '': ''
                         @ dose @ '' '' @ toLowerCase L u))
      | JNull \<Rightarrow>
          Some (success (''Logged '' @ med_name med @ '' for '' @ baby_firstName b @ '': ''
                         @ dose @ '' ''))
      | _ \<Rightarrow> None)"

text \<open>
  \<^verbatim>\<open>doseAmount\<close>, with \<open>None\<close> for \<^verbatim>\<open>NaN\<close>, and \<^verbatim>\<open>doseUnit\<close> of the medicine case.
\<close>

definition voice_doseAmount :: "lib \<Rightarrow> (string \<Rightarrow> jsval) \<Rightarrow> medicine \<Rightarrow> rat option" where
  "voice_doseAmount L body med =
     (if js_truthy (body ''amount'') then parseFloat L (body ''amount'')
      else Some (case med_typicalDoseSize med of
                   None \<Rightarrow> 1
                 | Some d \<Rightarrow> if d = 0 then 1 else d))"

definition voice_doseUnit :: "(string \<Rightarrow> jsval) \<Rightarrow> medicine \<Rightarrow> jsval" where
  "voice_doseUnit body med =
     (if js_truthy (body ''unit'') then body ''unit''
      else case med_unitAbbr med of
             None \<Rightarrow> JNull
           | Some u \<Rightarrow> JStr u)"

text \<open>
  The medicine case once the medicine is found, and the case itself. The search for the
  medicine has a filter with \<^verbatim>\<open>mode: 'insensitive'\<close>: it throws for a name that is not a
  string and on a store whose client rejects the mode.
\<close>

definition voice_medicine_found ::
  "lib \<Rightarrow> env \<Rightarrow> (string \<Rightarrow> jsval) \<Rightarrow> string \<Rightarrow> string option \<Rightarrow> baby \<Rightarrow> medicine
     \<Rightarrow> voice_case" where
  "voice_medicine_found L E body fid cid b med D =
     (case create_medicineLog L D \<lparr> ml_babyId = baby_id b,
             ml_medicineId = med_id med, ml_time = now E,
             ml_doseAmount = voice_doseAmount L body med,
             ml_unitAbbr = voice_doseUnit body med,
             ml_caretakerId = cid, ml_familyId = fid \<rparr> of
        None \<Rightarrow> (None, D)
      | Some D' \<Rightarrow>
          (voice_medicine_reply L med b
             (case voice_doseAmount L body med of
                None \<Rightarrow> ''NaN''
              | Some d \<Rightarrow> showNumber L d)
             (voice_doseUnit body med), D'))"

definition voice_medicine ::
  "lib \<Rightarrow> env \<Rightarrow> (string \<Rightarrow> jsval) \<Rightarrow> string \<Rightarrow> string option \<Rightarrow> baby \<Rightarrow> voice_case" where
  "voice_medicine L E body fid cid b D =
     (if \<not> js_truthy (body ''medicine'')
      then (Some (failure 400 ''Missing required field: medicine (name of the medicine)''), D)
      else case body ''medicine'' of
        JStr m \<Rightarrow>
          (case insensitiveMode L of
             None \<Rightarrow> (None, D)
           | Some equals \<Rightarrow>
               (let available = filter (\<lambda>x. med_familyId x = fid \<and> med_active x) (medicines D) in
                case find (\<lambda>x. equals (med_name x) m) available of
                  None \<Rightarrow>
                    (Some (failure 400 (''Medicine \"'' @ m @ ''\" not found. Available: ''
                        @ (if join (map med_name available) = [] then ''none''
                           else join (map med_name available)))), D)
                | Some med \<Rightarrow> voice_medicine_found L E body fid cid b med D))
      | _ \<Rightarrow> (None, D))"

text \<open>The \<^verbatim>\<open>switch\<close> on the lowercased action.\<close>

definition voice_action ::
  "lib \<Rightarrow> env \<Rightarrow> (string \<Rightarrow> jsval) \<Rightarrow> string \<Rightarrow> string option \<Rightarrow> baby \<Rightarrow> string
     \<Rightarrow> voice_case" where
  "voice_action L E body fid cid b action D =
     (let a = toLowerCase L action in
      if a = ''bottle'' then voice_bottle L E body fid cid b D
      else if a \<in> set [''breast'', ''nursing''] then voice_breast L E body fid cid b D
      else if a = ''diaper'' then voice_diaper L E body fid cid b D
      else if a \<in> set [''sleep-start'', ''sleep_start'', ''nap'', ''sleep'']
      then voice_sleep_start L E body fid cid b action D
      else if a \<in> set [''sleep-end'', ''sleep_end'', ''wake'', ''woke'', ''awake'']
      then voice_sleep_end L E fid b D
      else if a \<in> set [''medicine'', ''medication'', ''med'', ''meds'']
      then voice_medicine L E body fid cid b D
      else
        (Some (failure 400 (''Unknown action: \"'' @ action
            @ ''\". Supported: bottle, breast, diaper, sleep, wake, medicine'')), D))"

definition POST_voiceLog :: "lib \<Rightarrow> env \<Rightarrow> handler" where
  "POST_voiceLog L E req D =
     (case bearer_token req of
        None \<Rightarrow> (failure 401 ''Missing Authorization: Bearer {device_token} header'', D)
      | Some token \<Rightarrow>
     (case validateDeviceToken E D token of (authResult, D1) \<Rightarrow>
        case (if authenticated authResult then or_null (familyId authResult) else None) of
          None \<Rightarrow>
            (failure 401 (or_else (error authResult) ''Invalid or expired device token''), D1)
        | Some fid \<Rightarrow>
     (case req_body req of
        None \<Rightarrow> (failure 500 ''An error occurred processing the request'', D1)
      | Some body \<Rightarrow>
          if \<not> js_truthy (body ''action'')
          then (failure 400 ''Missing required field: action'', D1)
          else
            (case resolveBaby L D1 fid (body ''babyName'') of
               None \<Rightarrow> (failure 500 ''An error occurred processing the request'', D1)
             | Some None \<Rightarrow>
                 (let names = join (map baby_firstName (active_babies D1 fid)) in
                  (failure 400
                     (if js_truthy (body ''babyName'')
                      then ''Baby \"'' @ showValue L (body ''babyName'') @ ''\" not found. Available: ''
                             @ names
                      else ''Multiple babies found. Please specify babyName. Available: '' @ names),
                   D1))
             | Some (Some b) \<Rightarrow>
                 (case body ''action'' of
                    JStr action \<Rightarrow>
                      (case voice_action L E body fid (caretakerId authResult) b action D1 of
                         (Some r, D2) \<Rightarrow> (r, D2)
                       | (None, D2) \<Rightarrow>
                           (failure 500 ''An error occurred processing the request'', D2))
                  | _ \<Rightarrow> (failure 500 ''An error occurred processing the request'', D1))))))"

section \<open>The route of the Kindle form\<close>

text \<open>
  The two redirects. The response carries the \<^verbatim>\<open>Location\<close> that
  \<^verbatim>\<open>NextResponse.redirect\<close> sets: the serialisation of the URL that the route builds. The
  token and the id of the baby go into that URL as they are, so a token with a \<^verbatim>\<open>#\<close>, a
  \<^verbatim>\<open>?\<close> or a dot segment changes the path, the query or the fragment that the
  \<^verbatim>\<open>Location\<close> has; only the message of an error is encoded.
\<close>

definition redirectWithSuccess :: "lib \<Rightarrow> string \<Rightarrow> string \<Rightarrow> string \<Rightarrow> string \<Rightarrow> response" where
  "redirectWithSuccess L origin token babyId activity =
     Redirect 303 (serializeURL L
       (origin @ ''/kindle/'' @ token @ ''?success='' @ activity @ ''&babyId='' @ babyId))"

definition redirectWithError :: "lib \<Rightarrow> string \<Rightarrow> string \<Rightarrow> string \<Rightarrow> response" where
  "redirectWithError L origin token e =
     Redirect 303 (serializeURL L
       (origin @ (if token \<noteq> [] then ''/kindle/'' @ token else ''/kindle'')
          @ ''?error='' @ encodeURIComponent L e))"

text \<open>\<^verbatim>\<open>formData.get(k) || d\<close> and \<^verbatim>\<open>parseFloat(formData.get(k))\<close> with \<^verbatim>\<open>NaN\<close> and 0 as \<open>None\<close>.\<close>

definition form_or :: "(string \<Rightarrow> string option) \<Rightarrow> string \<Rightarrow> string \<Rightarrow> string" where
  "form_or form k d = or_else (form k) d"

definition form_number :: "lib \<Rightarrow> (string \<Rightarrow> string option) \<Rightarrow> string \<Rightarrow> rat option" where
  "form_number L form k =
     (case form k of
        None \<Rightarrow> None
      | Some s \<Rightarrow> (case parseFloat L (JStr s) of
                     None \<Rightarrow> None
                   | Some n \<Rightarrow> if n = 0 then None else Some n))"

text \<open>
  The cases of the \<^verbatim>\<open>switch\<close> of the Kindle route, for a baby of the family; \<open>None\<close>
  is an exception. The arguments are the form, the origin, the token, the family and the
  caretaker of the token, and the id of the baby.
\<close>

text \<open>\<^verbatim>\<open>bottleType\<close> of the bottle case: the field of the form, or \<^verbatim>\<open>null\<close>.\<close>

definition kindle_bottleType :: "(string \<Rightarrow> string option) \<Rightarrow> jsval" where
  "kindle_bottleType form = (case or_null (form ''bottleType'') of None \<Rightarrow> JNull | Some t \<Rightarrow> JStr t)"

definition kindle_feed_bottle ::
  "lib \<Rightarrow> env \<Rightarrow> (string \<Rightarrow> string option) \<Rightarrow> string \<Rightarrow> string \<Rightarrow> string \<Rightarrow> string option
     \<Rightarrow> string \<Rightarrow> voice_case" where
  "kindle_feed_bottle L E form origin token fid cid babyId D =
     (case create_feedLog L D \<lparr> fl_babyId = babyId, fl_time = now E, fl_type = ''BOTTLE'',
             fl_amount = map_option Some (form_number L form ''amount''),
             fl_unitAbbr = Some (form_or form ''unitAbbr'' ''OZ''),
             fl_bottleType = kindle_bottleType form,
             fl_side = None, fl_caretakerId = cid, fl_familyId = fid \<rparr> of
        None \<Rightarrow> (None, D)
      | Some D' \<Rightarrow> (Some (redirectWithSuccess L origin token babyId ''feed''), D'))"

definition kindle_feed_breast ::
  "lib \<Rightarrow> env \<Rightarrow> (string \<Rightarrow> string option) \<Rightarrow> string \<Rightarrow> string \<Rightarrow> string \<Rightarrow> string option
     \<Rightarrow> string \<Rightarrow> voice_case" where
  "kindle_feed_breast L E form origin token fid cid babyId D =
     (case create_feedLog L D \<lparr> fl_babyId = babyId, fl_time = now E, fl_type = ''BREAST'',
             fl_amount = None, fl_unitAbbr = None, fl_bottleType = JUndefined,
             fl_side = or_null (form ''side''), fl_caretakerId = cid, fl_familyId = fid \<rparr> of
        None \<Rightarrow> (None, D)
      | Some D' \<Rightarrow> (Some (redirectWithSuccess L origin token babyId ''feed''), D'))"

definition kindle_diaper ::
  "lib \<Rightarrow> env \<Rightarrow> (string \<Rightarrow> string option) \<Rightarrow> string \<Rightarrow> string \<Rightarrow> string \<Rightarrow> string option
     \<Rightarrow> string \<Rightarrow> voice_case" where
  "kindle_diaper L E form origin token fid cid babyId D =
     (case create_diaperLog L D \<lparr> dl_babyId = babyId, dl_time = now E,
             dl_type = form_or form ''type'' ''WET'', dl_caretakerId = cid,
             dl_familyId = fid \<rparr> of
        None \<Rightarrow> (None, D)
      | Some D' \<Rightarrow> (Some (redirectWithSuccess L origin token babyId ''diaper''), D'))"

definition kindle_sleep_start ::
  "lib \<Rightarrow> env \<Rightarrow> (string \<Rightarrow> string option) \<Rightarrow> string \<Rightarrow> string \<Rightarrow> string \<Rightarrow> string option
     \<Rightarrow> string \<Rightarrow> voice_case" where
  "kindle_sleep_start L E form origin token fid cid babyId D =
     (case create_sleepLog L D \<lparr> sl_id = newId E, sl_babyId = babyId, sl_startTime = now E,
             sl_endTime = None, sl_duration = None,
             sl_type = form_or form ''sleepType'' ''NIGHT_SLEEP'', sl_caretakerId = cid,
             sl_familyId = fid \<rparr> of
        None \<Rightarrow> (None, D)
      | Some D' \<Rightarrow> (Some (redirectWithSuccess L origin token babyId ''sleep-start''), D'))"

definition kindle_sleep_end ::
  "lib \<Rightarrow> env \<Rightarrow> (string \<Rightarrow> string option) \<Rightarrow> string \<Rightarrow> string \<Rightarrow> string \<Rightarrow> string
     \<Rightarrow> voice_case" where
  "kindle_sleep_end L E form origin token fid babyId D =
     (case or_null (form ''sleepLogId'') of
        None \<Rightarrow> (Some (redirectWithSuccess L origin token babyId ''sleep-end''), D)
      | Some sleepLogId \<Rightarrow>
          (case find (\<lambda>s. sl_id s = sleepLogId \<and> sl_familyId s = fid) (sleepLogs D) of
             None \<Rightarrow> (Some (redirectWithSuccess L origin token babyId ''sleep-end''), D)
           | Some sleepLog \<Rightarrow>
               (Some (redirectWithSuccess L origin token babyId ''sleep-end''),
                end_sleep (now E) sleepLogId
                  (minutes_between (now E) (sl_startTime sleepLog)) D)))"

text \<open>
  \<^verbatim>\<open>doseAmount || medicine.typicalDoseSize || 1\<close> and
  \<^verbatim>\<open>medUnitAbbr || medicine.unitAbbr\<close> of the medicine case.
\<close>

definition kindle_doseAmount :: "lib \<Rightarrow> (string \<Rightarrow> string option) \<Rightarrow> medicine \<Rightarrow> rat" where
  "kindle_doseAmount L form med =
     (case form_number L form ''doseAmount'' of
        Some n \<Rightarrow> n
      | None \<Rightarrow> (case med_typicalDoseSize med of
                   None \<Rightarrow> 1
                 | Some d \<Rightarrow> if d = 0 then 1 else d))"

definition kindle_doseUnit :: "(string \<Rightarrow> string option) \<Rightarrow> medicine \<Rightarrow> jsval" where
  "kindle_doseUnit form med =
     (case or_null (form ''unitAbbr'') of
        Some u \<Rightarrow> JStr u
      | None \<Rightarrow> (case med_unitAbbr med of
                   None \<Rightarrow> JNull
                 | Some u \<Rightarrow> JStr u))"

definition kindle_medicine ::
  "lib \<Rightarrow> env \<Rightarrow> (string \<Rightarrow> string option) \<Rightarrow> string \<Rightarrow> string \<Rightarrow> string \<Rightarrow> string option
     \<Rightarrow> string \<Rightarrow> voice_case" where
  "kindle_medicine L E form origin token fid cid babyId D =
     (case or_null (form ''medicineId'') of
        None \<Rightarrow> (Some (redirectWithError L origin token ''Medicine selection required''), D)
      | Some medicineId \<Rightarrow>
          (case find (\<lambda>x. med_id x = medicineId \<and> med_familyId x = fid \<and> med_active x)
                  (medicines D) of
             None \<Rightarrow> (Some (redirectWithError L origin token ''Medicine not found''), D)
           | Some med \<Rightarrow>
               (case create_medicineLog L D \<lparr> ml_babyId = babyId, ml_medicineId = medicineId,
                       ml_time = now E,
                       ml_doseAmount = Some (kindle_doseAmount L form med),
                       ml_unitAbbr = kindle_doseUnit form med,
                       ml_caretakerId = cid, ml_familyId = fid \<rparr> of
                  None \<Rightarrow> (None, D)
                | Some D' \<Rightarrow> (Some (redirectWithSuccess L origin token babyId ''medicine''), D'))))"

definition kindle_action ::
  "lib \<Rightarrow> env \<Rightarrow> (string \<Rightarrow> string option) \<Rightarrow> string \<Rightarrow> string \<Rightarrow> string \<Rightarrow> string option
     \<Rightarrow> string \<Rightarrow> voice_case" where
  "kindle_action L E form origin token fid cid babyId D =
     (let action = form ''action'' in
      if action = Some ''feed-bottle'' then kindle_feed_bottle L E form origin token fid cid babyId D
      else if action = Some ''feed-breast''
      then kindle_feed_breast L E form origin token fid cid babyId D
      else if action = Some ''diaper'' then kindle_diaper L E form origin token fid cid babyId D
      else if action = Some ''sleep-start''
      then kindle_sleep_start L E form origin token fid cid babyId D
      else if action = Some ''sleep-end'' then kindle_sleep_end L E form origin token fid babyId D
      else if action = Some ''medicine'' then kindle_medicine L E form origin token fid cid babyId D
      else (Some (redirectWithError L origin token ''Unknown action''), D))"

text \<open>
  \<^verbatim>\<open>POST /api/kindle/log\<close>. The store rejects the search for a baby whose id is
  \<^verbatim>\<open>null\<close>, a form without the field \<^verbatim>\<open>babyId\<close>.
\<close>

definition POST_kindleLog :: "lib \<Rightarrow> env \<Rightarrow> handler" where
  "POST_kindleLog L E req D =
     (let origin = req_origin req in
      case req_form req of
        None \<Rightarrow> (redirectWithError L origin [] ''An error occurred'', D)
      | Some form \<Rightarrow>
          (let token = form_or form ''token'' [] in
           if token = [] then (redirectWithError L origin token ''Missing authentication token'', D)
           else
             (case validateDeviceToken E D token of (authResult, D1) \<Rightarrow>
                case (if authenticated authResult then or_null (familyId authResult) else None) of
                  None \<Rightarrow>
                    (redirectWithError L origin token
                       (or_else (error authResult) ''Authentication failed''), D1)
                | Some fid \<Rightarrow>
                    (case form ''babyId'' of
                       None \<Rightarrow> (redirectWithError L origin token ''An error occurred'', D1)
                     | Some babyId \<Rightarrow>
                         (case find (\<lambda>b. baby_id b = babyId \<and> baby_familyId b = fid) (babies D1) of
                            None \<Rightarrow> (redirectWithError L origin token ''Baby not found'', D1)
                          | Some b \<Rightarrow>
                              (case kindle_action L E form origin token fid
                                      (caretakerId authResult) babyId D1 of
                                 (Some r, D2) \<Rightarrow> (r, D2)
                               | (None, D2) \<Rightarrow>
                                   (redirectWithError L origin token ''An error occurred'', D2)))))))"

section \<open>Sequences of calls\<close>

text \<open>
  What happens to the blacklist between two calls of the resolver: other tokens are
  invalidated and the timer runs. \<open>cleanups\<close> lists the times at which the timer ran.
\<close>

datatype event = Invalidate string | Cleanup time

fun run :: "lib \<Rightarrow> blacklist \<Rightarrow> event list \<Rightarrow> blacklist" where
  "run L bl [] = bl"
| "run L bl (Invalidate t # es) = run L (snd (invalidateToken L bl t)) es"
| "run L bl (Cleanup n # es) = run L (cleanup n bl) es"

fun cleanups :: "event list \<Rightarrow> time list" where
  "cleanups [] = []"
| "cleanups (Invalidate t # es) = cleanups es"
| "cleanups (Cleanup n # es) = n # cleanups es"

text \<open>The request \<open>req\<close> with the header \<^verbatim>\<open>Authorization: Bearer t\<close>.\<close>

definition bearer_request :: "request \<Rightarrow> string \<Rightarrow> request" where
  "bearer_request req t = req \<lparr> req_authorization := Some (''Bearer '' @ t) \<rparr>"

text \<open>
  What happens to the store between a revocation and a later call, as far as the table of
  the device tokens goes, for the token string \<open>tok\<close> that was revoked. The three handlers
  of the device tokens and \<^verbatim>\<open>validateDeviceToken\<close> are the only code of the sources that
  writes the table. The migration declares \<^verbatim>\<open>ON DELETE CASCADE\<close> on both foreign keys, so
  deleting a family or a caretaker deletes its device tokens with it. Every other write
  leaves the table as it is. Two things are not steps: \<^verbatim>\<open>randomBytes(32)\<close> drawing the
  string \<open>tok\<close> again for a new token, and a restore of the store from a backup, which
  replaces the table by an older one in which the token need not be revoked.
\<close>

inductive step :: "string \<Rightarrow> db \<Rightarrow> db \<Rightarrow> bool" for tok :: string where
  created: "randomToken E \<noteq> tok \<Longrightarrow> step tok D (snd (handlePost L E req a D))"
| revoked: "step tok D (snd (handleDelete L E req a D))"
| validated: "step tok D (snd (validateDeviceToken E D t))"
| family_deleted:
    "deviceTokens D' = filter (\<lambda>r. dt_familyId r \<noteq> fid) (deviceTokens D) \<Longrightarrow> step tok D D'"
| caretaker_deleted:
    "deviceTokens D' = filter (\<lambda>r. dt_caretakerId r \<noteq> cid) (deviceTokens D) \<Longrightarrow> step tok D D'"
| elsewhere: "deviceTokens D' = deviceTokens D \<Longrightarrow> step tok D D'"

text \<open>Every row that has the token string \<open>tok\<close> is revoked.\<close>

definition all_revoked :: "string \<Rightarrow> db \<Rightarrow> bool" where
  "all_revoked tok D = list_all (\<lambda>r. dt_token r = tok \<longrightarrow> dt_revokedAt r \<noteq> None) (deviceTokens D)"

text \<open>
  The context that \<^verbatim>\<open>withAuthContext\<close> hands to the handler for a request, or the response
  with which it rejects the request: the wrapper with the calls of the handler left out.
\<close>

definition context_of :: "lib \<Rightarrow> env \<Rightarrow> blacklist \<Rightarrow> db \<Rightarrow> request \<Rightarrow> response + auth_result" where
  "context_of L E bl D req =
     (let authResult = getAuthenticatedUser L E bl D req in
      if \<not> authenticated authResult then Inl (failure 401 ''Authentication required'')
      else if is_true (isSetupAuth authResult) \<and> truthy (setupToken authResult) then
        (case or_null (req_query_familyId req) of
           None \<Rightarrow> Inr authResult
         | Some fid \<Rightarrow>
             (case find (\<lambda>s. Some (fs_token s) = setupToken authResult) (familySetups D) of
                None \<Rightarrow> Inl (failure 403 ''Setup token is not authorized for this family'')
              | Some st \<Rightarrow>
                  if fs_familyId st = Some fid \<or> \<not> truthy (fs_familyId st)
                  then Inr (authResult \<lparr> familyId := Some fid \<rparr>)
                  else Inl (failure 403 ''Setup token is not authorized for this family'')))
      else if is_true (isSysAdmin authResult) then
        (let fid1 = or_null (req_query_familyId req);
             fid2 = (if fid1 = None then family_id_of_route D (req_pathSegments req) else fid1);
             fid3 = (if \<not> truthy fid2 then
                       (case req_referer req of
                          RefererPath segs \<Rightarrow>
                            (case family_id_of_route D segs of None \<Rightarrow> fid2 | Some i \<Rightarrow> Some i)
                        | _ \<Rightarrow> fid2)
                     else fid2)
         in Inr (authResult \<lparr> familyId := (if truthy fid3 then fid3 else familyId authResult) \<rparr>))
      else Inr authResult)"

text \<open>A row of the table with its token cut to the 8 characters that the listing shows.\<close>

definition redact :: "device_token \<Rightarrow> device_token" where
  "redact r = r \<lparr> dt_token := take 8 (dt_token r) \<rparr>"

section \<open>The shape of a response\<close>

text \<open>
  An error as the JSON routes surface it: the body \<^verbatim>\<open>{success: false, error}\<close> with one of
  the five status codes. A success: status 200 and \<^verbatim>\<open>success: true\<close>.
\<close>

fun json_error :: "response \<Rightarrow> bool" where
  "json_error (Json code s e d) =
     (\<not> s \<and> e \<noteq> None \<and> d = None \<and> code \<in> set [400, 401, 403, 404, 500])"
| "json_error (Redirect code url) = False"

fun json_success :: "response \<Rightarrow> bool" where
  "json_success (Json code s e d) = (s \<and> e = None \<and> code = 200)"
| "json_success (Redirect code url) = False"

fun redirect_303 :: "response \<Rightarrow> bool" where
  "redirect_303 (Json code s e d) = False"
| "redirect_303 (Redirect code url) = (code = 303)"

definition json_ok :: "response \<Rightarrow> bool" where
  "json_ok r = (json_success r \<or> json_error r)"

section \<open>Constraints of the store\<close>

text \<open>
  What the migration declares for the \<^verbatim>\<open>DeviceToken\<close> table: the primary key, the unique
  index on the token, and the two foreign keys.
\<close>

definition deviceToken_constraints :: "db \<Rightarrow> bool" where
  "deviceToken_constraints D =
     (distinct (map dt_id (deviceTokens D)) \<and> distinct (map dt_token (deviceTokens D))
      \<and> list_all (\<lambda>r. caretaker_by_id D (dt_caretakerId r) \<noteq> None
                     \<and> family_by_id D (dt_familyId r) \<noteq> None) (deviceTokens D))"

section \<open>A small installation\<close>

text \<open>
  One family with an administrator, a system caretaker, an account whose trial ended
  at time 1000, and one device token; a library that knows three tokens.
\<close>

definition demo_setup :: jwt_payload where
  "demo_setup = \<lparr> p_isSetupAuth = True, p_setupToken = Some ''s1'', p_isAccountAuth = False,
     p_accountId = None, p_accountEmail = None, p_id = None, p_name = None, p_type = None,
     p_role = None, p_familyId = None, p_familySlug = None, p_isSysAdmin = None,
     p_authType = None, p_exp = Some 5 \<rparr>"

definition demo_account :: jwt_payload where
  "demo_account = demo_setup \<lparr> p_isSetupAuth := False, p_setupToken := None,
     p_isAccountAuth := True, p_accountId := Some ''a1'', p_accountEmail := Some ''a@b.c'' \<rparr>"

definition demo_regular :: jwt_payload where
  "demo_regular = demo_setup \<lparr> p_isSetupAuth := False, p_setupToken := None,
     p_id := Some ''c0'', p_name := Some ''system'', p_role := Some ''USER'',
     p_familyId := Some ''f1'', p_familySlug := Some ''smith'' \<rparr>"

definition demo_payloads :: "string \<Rightarrow> jwt_payload option" where
  "demo_payloads t = (if t = ''S'' then Some demo_setup else if t = ''A'' then Some demo_account
                      else if t = ''R'' then Some demo_regular else None)"

definition demo_lib :: lib where
  "demo_lib = \<lparr> jwt_verify = (\<lambda>t secret n. demo_payloads t), jwt_decode = demo_payloads,
     jwt_sign = (\<lambda>p secret. ''J''), toLowerCase = (\<lambda>s. s), trim = (\<lambda>s. s),
     parseFloat = (\<lambda>v. case v of JNum r \<Rightarrow> Some r | _ \<Rightarrow> None),
     parseDate = (\<lambda>v. case v of JNum r \<Rightarrow> Some (floor r) | _ \<Rightarrow> None),
     showNumber = (\<lambda>r. ''n''), showValue = (\<lambda>v. ''v''), encodeURIComponent = (\<lambda>s. concat (map (\<lambda>c. if c = CHR '' '' then ''%20'' else [c]) s)),
     serializeURL = (\<lambda>u. u), insensitiveMode = None, acceptsFeedLog = (\<lambda>r. True),
     acceptsDiaperLog = (\<lambda>r. True), acceptsSleepLog = (\<lambda>r. True),
     acceptsMedicineLog = (\<lambda>r. True) \<rparr>"

definition demo_env :: env where
  "demo_env = \<lparr> now = 2000, DEPLOYMENT_MODE = Some ''saas'', JWT_SECRET = None,
     randomToken = ''0123456789abcdef'', newId = ''d2'' \<rparr>"

definition demo_db :: db where
  "demo_db = \<lparr>
     families = [\<lparr> fam_id = ''f1'', fam_slug = ''smith'' \<rparr>],
     caretakers = [\<lparr> crt_id = ''c1'', crt_loginId = ''01'', crt_name = ''Ann'',
                     crt_type = Some ''Parent'', crt_role = ''ADMIN'', crt_familyId = Some ''f1'',
                     crt_deletedAt = None \<rparr>,
                   \<lparr> crt_id = ''c0'', crt_loginId = ''00'', crt_name = ''system'',
                     crt_type = None, crt_role = ''USER'', crt_familyId = Some ''f1'',
                     crt_deletedAt = None \<rparr>],
     accounts = [\<lparr> acc_id = ''a1'', acc_closed = False, acc_verified = True,
                   acc_betaparticipant = False, acc_trialEnds = Some 1000,
                   acc_planExpires = None, acc_planType = None, acc_familyId = Some ''f1'',
                   acc_caretakerId = Some ''c1'' \<rparr>],
     deviceTokens = [\<lparr> dt_id = ''d1'', dt_token = ''fedcba9876543210'', dt_name = ''Kindle'',
                       dt_familyId = ''f1'', dt_caretakerId = ''c1'', dt_expiresAt = None,
                       dt_revokedAt = None, dt_lastUsedAt = None, dt_createdAt = 500 \<rparr>],
     familySetups = [],
     babies = [\<lparr> baby_id = ''b1'', baby_firstName = ''Eve'', baby_familyId = ''f1'',
                 baby_inactive = False \<rparr>],
     settingsRows = [], medicines = [], feedLogs = [], diaperLogs = [], sleepLogs = [],
     medicineLogs = [] \<rparr>"

definition demo_form :: "string \<Rightarrow> string option" where
  "demo_form k = (if k = ''action'' then Some ''diaper'' else None)"

definition demo_request :: "string option \<Rightarrow> request" where
  "demo_request h = \<lparr> req_authorization = h, req_cookie_caretakerId = None,
     req_query_familyId = None, req_query_id = Some ''d1'', req_pathSegments = [''api'', ''device-tokens''],
     req_referer = NoReferer, req_origin = ''https://h'',
     req_body = Some (\<lambda>k. if k = ''token'' then JStr ''fedcba9876543210'' else JUndefined),
     req_form = Some demo_form \<rparr>"

definition demo_admin_request :: request where
  "demo_admin_request = (demo_request None) \<lparr> req_cookie_caretakerId := Some ''c1'' \<rparr>"

text \<open>
  A request of the administrator that creates a device token, one that deletes a device
  token that does not exist, and the store after the revocation of the device token and
  the deletion of the family, which takes the device token with it.
\<close>

definition demo_create_request :: request where
  "demo_create_request = demo_admin_request
     \<lparr> req_body := Some (\<lambda>k. if k = ''name'' then JStr ''Tablet'' else JUndefined) \<rparr>"

definition demo_unknown_request :: request where
  "demo_unknown_request = demo_admin_request \<lparr> req_query_id := Some ''d9'' \<rparr>"

definition demo_family_deleted :: db where
  "demo_family_deleted = (revoke 2000 ''d1'' demo_db)
     \<lparr> families := [],
       deviceTokens := filter (\<lambda>r. dt_familyId r \<noteq> ''f1'')
                         (deviceTokens (revoke 2000 ''d1'' demo_db)) \<rparr>"

text \<open>The store with the tail of the token of the device token changed.\<close>

definition demo_other_tail :: db where
  "demo_other_tail = demo_db \<lparr> deviceTokens :=
     map (\<lambda>r. r \<lparr> dt_token := ''fedcba98ffffffff'' \<rparr>) (deviceTokens demo_db) \<rparr>"

section \<open>Lemmas on lookups\<close>

lemma find_None_set: "(find P xs = None) = (\<forall>x\<in>set xs. \<not> P x)"
  by (induction xs) auto

lemma find_Some_in: "find P xs = Some x \<Longrightarrow> x \<in> set xs \<and> P x"
  by (induction xs) (auto split: if_splits)

lemma find_distinct_key:
  "distinct (map k xs) \<Longrightarrow> x \<in> set xs \<Longrightarrow> find (\<lambda>r. k r = k x) xs = Some x"
  by (induction xs) (auto simp: rev_image_eqI)

lemma find_Some_key: "find (\<lambda>x. k x = i) xs = Some y \<Longrightarrow> k y = i"
  by (induction xs) (auto split: if_splits)

lemma those_map_list_all2:
  "those (map f xs) = Some ys \<Longrightarrow> list_all2 (\<lambda>x y. f x = Some y) xs ys"
  by (induction xs arbitrary: ys) (auto split: option.splits)

lemma bl_has_empty [simp]: "\<not> bl_has [] t"
  by (simp add: bl_has_def)

lemma rejected_simps [simp]: "authenticated (rejected e) = False" "error (rejected e) = Some e"
  "isExpired (rejected e) = None"
  by (simp_all add: rejected_def blank_def)

lemma demo_constraints: "deviceToken_constraints demo_db"
  by (simp add: deviceToken_constraints_def demo_db_def caretaker_by_id_def family_by_id_def)

lemma bearer_token_bearer_request: "bearer_token (bearer_request req t) = Some t"
  by (simp add: bearer_token_def bearer_request_def startsWith_def)

lemma demo_bearer: "or_null (bearer_token (demo_request (Some (''Bearer '' @ [c])))) = Some [c]"
  by (simp add: demo_request_def bearer_token_def startsWith_def or_null_def truthy_def)

section \<open>The wrapper of the routes with a context\<close>

text \<open>
  Whatever the request, the wrapper either runs the handler on some context or rejects the
  request with 401 or 403, leaving the store as it is.
\<close>

lemma withAuthContext_cases:
  "(\<exists>a. withAuthContext L E bl h req D = h req a D)
   \<or> withAuthContext L E bl h req D = (failure 401 ''Authentication required'', D)
   \<or> withAuthContext L E bl h req D = (failure 403 ''Setup token is not authorized for this family'', D)"
  unfolding withAuthContext_def Let_def
  by (auto split: option.splits)

lemma withAuthContext_context:
  "withAuthContext L E bl h req D =
     (case context_of L E bl D req of Inl resp \<Rightarrow> (resp, D) | Inr a \<Rightarrow> h req a D)"
  by (simp add: withAuthContext_def context_of_def Let_def split: option.split)

section \<open>The expiration flag of an account\<close>

text \<open>
  C1. A request whose token verifies as an account token, for an account that exists and
  is not closed, gets the flag \<^verbatim>\<open>isExpired\<close> as follows: it is true exactly when the
  deployment mode is \<^verbatim>\<open>saas\<close>, the account has a family, the account is not a beta
  participant, and either the trial end is set and passed, or no trial end is set and the
  plan expiry is set and passed, or none of trial end, plan expiry and plan type is set
  (the plan type counts as unset when it is null or empty, which is what
  \<^verbatim>\<open>!account.planType\<close> tests). In every other configuration the flag is false.
\<close>

theorem account_isExpired:
  assumes "bearer_token req = Some t" and "t \<noteq> []" and "\<not> bl_has bl t"
    and "jwt_verify L t (getJwtSecret E) (now E) = Some decoded"
    and "\<not> (p_isSetupAuth decoded \<and> truthy (p_setupToken decoded))"
    and "p_isAccountAuth decoded"
    and "p_accountId decoded = Some aid" and "account_by_id D aid = Some a"
    and "\<not> acc_closed a"
  shows "isExpired (getAuthenticatedUser L E bl D req) = Some
     (DEPLOYMENT_MODE E = Some ''saas'' \<and> account_family D a \<noteq> None \<and> \<not> acc_betaparticipant a \<and>
      ((\<exists>te. acc_trialEnds a = Some te \<and> now E > te)
       \<or> (acc_trialEnds a = None \<and> (\<exists>pe. acc_planExpires a = Some pe \<and> now E > pe))
       \<or> (acc_trialEnds a = None \<and> acc_planExpires a = None \<and> \<not> truthy (acc_planType a))))"
proof -
  have tok: "or_null (bearer_token req) = Some t"
    using assms(1,2) by (simp add: or_null_def truthy_def)
  have res: "getAuthenticatedUser L E bl D req = account_result E D decoded"
    using tok assms(3-6) by (auto simp: getAuthenticatedUser_def)
  have "isExpired (account_result E D decoded) = Some
     (if isSaasMode E \<and> account_family D a \<noteq> None \<and> \<not> acc_betaparticipant a
      then trial_plan_expired (now E) a else False)"
    using assms(7-9)
    by (simp add: account_result_def Let_def blank_def split: option.splits)
  then show ?thesis
    unfolding res
    by (auto simp: isSaasMode_def trial_plan_expired_def split: option.splits)
qed

theorem account_isExpired_witness:
  "isExpired (getAuthenticatedUser demo_lib demo_env [] demo_db
      (demo_request (Some ''Bearer A''))) = Some True"
  using account_isExpired [of "demo_request (Some ''Bearer A'')" "''A''" "[]" demo_lib
      demo_env demo_account "''a1''" demo_db "hd (accounts demo_db)"]
  by (simp add: demo_request_def bearer_token_def startsWith_def demo_lib_def demo_payloads_def
      demo_account_def demo_setup_def demo_db_def demo_env_def account_by_id_def truthy_def
      account_family_def family_by_id_def)

section \<open>Validation of a device token\<close>

text \<open>
  C2. In a store that satisfies the constraints of the migration, \<^verbatim>\<open>validateDeviceToken\<close>
  rejects a token string exactly when no row has that token, or the row is revoked, or the
  row has an expiry that the current time is past. In every other case the result is
  authenticated and carries the family id and caretaker id of the row, the type and role
  of its caretaker, the slug of its family (\<^verbatim>\<open>null\<close> for an empty slug, by \<^verbatim>\<open>|| null\<close>),
  \<^verbatim>\<open>isSysAdmin: false\<close> and the authentication type \<^verbatim>\<open>DEVICE_TOKEN\<close>.
\<close>

theorem validateDeviceToken_decision:
  assumes "deviceToken_constraints D"
  shows "(let r = fst (validateDeviceToken E D t) in
     if (\<forall>row\<in>set (deviceTokens D). dt_token row \<noteq> t)
        \<or> (\<exists>row\<in>set (deviceTokens D). dt_token row = t \<and>
              (dt_revokedAt row \<noteq> None \<or> (\<exists>e. dt_expiresAt row = Some e \<and> now E > e)))
     then \<not> authenticated r
     else authenticated r \<and>
       (\<exists>row c f. row \<in> set (deviceTokens D) \<and> dt_token row = t
          \<and> caretaker_by_id D (dt_caretakerId row) = Some c
          \<and> family_by_id D (dt_familyId row) = Some f
          \<and> familyId r = Some (dt_familyId row) \<and> caretakerId r = Some (dt_caretakerId row)
          \<and> caretakerType r = crt_type c \<and> caretakerRole r = Some (crt_role c)
          \<and> familySlug r = or_null (Some (fam_slug f))
          \<and> isSysAdmin r = Some False \<and> authType r = Some ''DEVICE_TOKEN''))"
proof (cases "deviceToken_by_token D t")
  case None
  then have "\<forall>r\<in>set (deviceTokens D). dt_token r \<noteq> t"
    by (simp add: deviceToken_by_token_def find_None_set)
  with None show ?thesis
    by (simp add: validateDeviceToken_def)
next
  case (Some r)
  then have r: "r \<in> set (deviceTokens D)" "dt_token r = t"
    using find_Some_in[of "\<lambda>r. dt_token r = t" "deviceTokens D" r]
    by (auto simp: deviceToken_by_token_def)
  have uniq: "r' = r" if "r' \<in> set (deviceTokens D)" "dt_token r' = t" for r'
    using assms that r
    by (auto simp: deviceToken_constraints_def distinct_map inj_on_def)
  obtain c where c: "caretaker_by_id D (dt_caretakerId r) = Some c"
    using assms r by (auto simp: deviceToken_constraints_def list_all_iff)
  obtain f where f: "family_by_id D (dt_familyId r) = Some f"
    using assms r by (auto simp: deviceToken_constraints_def list_all_iff)
  show ?thesis
  proof (cases "dt_revokedAt r \<noteq> None \<or> (\<exists>e. dt_expiresAt r = Some e \<and> now E > e)")
    case True
    then have "\<not> authenticated (fst (validateDeviceToken E D t))"
      using Some by (auto simp: validateDeviceToken_def)
    moreover have "\<exists>row\<in>set (deviceTokens D). dt_token row = t \<and>
              (dt_revokedAt row \<noteq> None \<or> (\<exists>e. dt_expiresAt row = Some e \<and> now E > e))"
      using True r by blast
    ultimately show ?thesis by (simp add: Let_def)
  next
    case False
    then have res: "fst (validateDeviceToken E D t) =
        (blank True) \<lparr> caretakerId := Some (dt_caretakerId r),
                     caretakerType := crt_type c, caretakerRole := Some (crt_role c),
                     familyId := Some (dt_familyId r),
                     familySlug := or_null (Some (fam_slug f)),
                     isSysAdmin := Some False, authType := Some ''DEVICE_TOKEN'' \<rparr>"
      using Some c f by (auto simp: validateDeviceToken_def Let_def split: option.splits)
    have no: "\<not> ((\<forall>row\<in>set (deviceTokens D). dt_token row \<noteq> t)
        \<or> (\<exists>row\<in>set (deviceTokens D). dt_token row = t \<and>
              (dt_revokedAt row \<noteq> None \<or> (\<exists>e. dt_expiresAt row = Some e \<and> now E > e))))"
      using False r uniq by blast
    have "\<exists>row c f. row \<in> set (deviceTokens D) \<and> dt_token row = t
          \<and> caretaker_by_id D (dt_caretakerId row) = Some c
          \<and> family_by_id D (dt_familyId row) = Some f
          \<and> familyId (fst (validateDeviceToken E D t)) = Some (dt_familyId row)
          \<and> caretakerId (fst (validateDeviceToken E D t)) = Some (dt_caretakerId row)
          \<and> caretakerType (fst (validateDeviceToken E D t)) = crt_type c
          \<and> caretakerRole (fst (validateDeviceToken E D t)) = Some (crt_role c)
          \<and> familySlug (fst (validateDeviceToken E D t)) = or_null (Some (fam_slug f))
          \<and> isSysAdmin (fst (validateDeviceToken E D t)) = Some False
          \<and> authType (fst (validateDeviceToken E D t)) = Some ''DEVICE_TOKEN''"
      unfolding res using r c f by (intro exI[of _ r] exI[of _ c] exI[of _ f]) (simp add: blank_def)
    moreover have "authenticated (fst (validateDeviceToken E D t))"
      unfolding res by (simp add: blank_def)
    ultimately show ?thesis using no by (simp add: Let_def)
  qed
qed

theorem validateDeviceToken_decision_witness:
  "deviceToken_constraints demo_db
   \<and> authenticated (fst (validateDeviceToken demo_env demo_db ''fedcba9876543210''))
   \<and> \<not> authenticated (fst (validateDeviceToken demo_env demo_db ''0000''))"
  using validateDeviceToken_decision [OF demo_constraints, of demo_env "''fedcba9876543210''"]
    validateDeviceToken_decision [OF demo_constraints, of demo_env "''0000''"] demo_constraints
  by (simp add: demo_db_def Let_def)

section \<open>The shape of the responses\<close>

lemma json_ok_failure [simp]:
  "code \<in> set [400, 401, 403, 404, 500] \<Longrightarrow> json_ok (failure code e)"
  by (simp add: json_ok_def failure_def)

lemma json_ok_ok [simp]: "json_ok (ok d)" "json_ok (success m)"
  by (simp_all add: json_ok_def ok_def success_def)

lemma withAuthContext_json_ok:
  assumes "\<And>a. json_ok (fst (h req a D))"
  shows "json_ok (fst (withAuthContext L E bl h req D))"
  using withAuthContext_cases [of L E bl h req D] assms by auto

lemma handleGet_json_ok: "json_ok (fst (handleGet L E req a D))"
  by (simp add: handleGet_def split: option.split)

lemma handleDelete_json_ok: "json_ok (fst (handleDelete L E req a D))"
  by (simp add: handleDelete_def split: option.split)

lemma handlePost_json_ok: "json_ok (fst (handlePost L E req a D))"
  by (simp add: handlePost_def Let_def split: option.split jsval.split prod.split)

lemma magicLink_json_ok: "json_ok (fst (POST_magicLink L E req D))"
  by (simp add: POST_magicLink_def Let_def split: option.split jsval.split prod.split)

lemma voice_bottle_json_ok: "pred_option json_ok (fst (voice_bottle L E body fid cid b D))"
  by (simp add: voice_bottle_def Let_def split: option.split)

lemma voice_breast_json_ok: "pred_option json_ok (fst (voice_breast L E body fid cid b D))"
  by (simp add: voice_breast_def split: option.split)

lemma voice_diaper_json_ok: "pred_option json_ok (fst (voice_diaper L E body fid cid b D))"
  by (simp add: voice_diaper_def split: option.split)

lemma voice_sleep_start_json_ok:
  "pred_option json_ok (fst (voice_sleep_start L E body fid cid b action D))"
  by (simp add: voice_sleep_start_def split: option.split)

lemma voice_sleep_end_json_ok: "pred_option json_ok (fst (voice_sleep_end L E fid b D))"
  by (simp add: voice_sleep_end_def Let_def split: option.split)

lemma voice_medicine_reply_json_ok:
  "pred_option json_ok (voice_medicine_reply L med b dose doseUnit)"
  by (cases doseUnit) (simp_all add: voice_medicine_reply_def)

lemma voice_medicine_found_json_ok:
  "pred_option json_ok (fst (voice_medicine_found L E body fid cid b med D))"
  by (simp add: voice_medicine_found_def voice_medicine_reply_json_ok split: option.split)

lemma voice_medicine_json_ok: "pred_option json_ok (fst (voice_medicine L E body fid cid b D))"
proof (cases "body ''medicine''")
  case (JStr m)
  then show ?thesis
    by (simp add: voice_medicine_def Let_def voice_medicine_found_json_ok split: option.split)
qed (simp_all add: voice_medicine_def)

lemma voice_action_json_ok: "pred_option json_ok (fst (voice_action L E body fid cid b action D))"
  by (simp add: voice_action_def Let_def voice_bottle_json_ok voice_breast_json_ok
      voice_diaper_json_ok voice_sleep_start_json_ok voice_sleep_end_json_ok
      voice_medicine_json_ok)

lemma voice_reply_json_ok:
  "json_ok (fst (case voice_action L E body fid cid b action D1 of
                   (Some r, D2) \<Rightarrow> (r, D2)
                 | (None, D2) \<Rightarrow> (failure 500 ''An error occurred processing the request'', D2)))"
  using voice_action_json_ok [of L E body fid cid b action D1]
  by (cases "voice_action L E body fid cid b action D1") (auto split: option.split)

lemma voiceLog_json_ok: "json_ok (fst (POST_voiceLog L E req D))"
  unfolding POST_voiceLog_def
  by (simp add: voice_reply_json_ok Let_def split: option.split jsval.split prod.split)


lemma redirect_simps [simp]:
  "redirect_303 (redirectWithSuccess L origin token babyId activity)"
  "redirect_303 (redirectWithError L origin token e)"
  by (simp_all add: redirectWithSuccess_def redirectWithError_def)

lemma kindle_feed_bottle_redirect:
  "pred_option redirect_303 (fst (kindle_feed_bottle L E form origin token fid cid babyId D))"
  by (simp add: kindle_feed_bottle_def split: option.split)

lemma kindle_feed_breast_redirect:
  "pred_option redirect_303 (fst (kindle_feed_breast L E form origin token fid cid babyId D))"
  by (simp add: kindle_feed_breast_def split: option.split)

lemma kindle_diaper_redirect:
  "pred_option redirect_303 (fst (kindle_diaper L E form origin token fid cid babyId D))"
  by (simp add: kindle_diaper_def split: option.split)

lemma kindle_sleep_start_redirect:
  "pred_option redirect_303 (fst (kindle_sleep_start L E form origin token fid cid babyId D))"
  by (simp add: kindle_sleep_start_def split: option.split)

lemma kindle_sleep_end_redirect:
  "pred_option redirect_303 (fst (kindle_sleep_end L E form origin token fid babyId D))"
  by (simp add: kindle_sleep_end_def split: option.split)

lemma kindle_medicine_redirect:
  "pred_option redirect_303 (fst (kindle_medicine L E form origin token fid cid babyId D))"
  by (simp add: kindle_medicine_def split: option.split)

lemma kindle_action_redirect:
  "pred_option redirect_303 (fst (kindle_action L E form origin token fid cid babyId D))"
  by (simp add: kindle_action_def Let_def kindle_feed_bottle_redirect kindle_feed_breast_redirect
      kindle_diaper_redirect kindle_sleep_start_redirect kindle_sleep_end_redirect
      kindle_medicine_redirect)

lemma kindle_reply_redirect:
  "redirect_303 (fst (case kindle_action L E form origin token fid cid babyId D1 of
                        (Some r, D2) \<Rightarrow> (r, D2)
                      | (None, D2) \<Rightarrow> (redirectWithError L origin token ''An error occurred'', D2)))"
  using kindle_action_redirect [of L E form origin token fid cid babyId D1]
  by (cases "kindle_action L E form origin token fid cid babyId D1") (auto split: option.split)

lemma kindleLog_redirect: "redirect_303 (fst (POST_kindleLog L E req D))"
  unfolding POST_kindleLog_def
  by (simp add: kindle_reply_redirect Let_def split: option.split prod.split)

text \<open>
  C3, as the code has it. Every response of the routes of the device tokens, of the voice
  route and of the magic link is a success (status 200, \<^verbatim>\<open>success: true\<close>) or an error of
  the shape \<^verbatim>\<open>{success: false, error}\<close> with status 400, 401, 403, 404 or 500. The Kindle
  route answers every request, an error included, with a redirect of status 303 and no
  JSON payload.
\<close>

theorem json_routes_surface_errors:
  "(json_success (fst (GET_deviceTokens L E bl req D)) \<or> json_error (fst (GET_deviceTokens L E bl req D)))
   \<and> (json_success (fst (POST_deviceTokens L E bl req D)) \<or> json_error (fst (POST_deviceTokens L E bl req D)))
   \<and> (json_success (fst (DELETE_deviceTokens L E bl req D)) \<or> json_error (fst (DELETE_deviceTokens L E bl req D)))
   \<and> (json_success (fst (POST_voiceLog L E req D)) \<or> json_error (fst (POST_voiceLog L E req D)))
   \<and> (json_success (fst (POST_magicLink L E req D)) \<or> json_error (fst (POST_magicLink L E req D)))
   \<and> redirect_303 (fst (POST_kindleLog L E req D))"
proof -
  have "json_ok (fst (GET_deviceTokens L E bl req D))"
    unfolding GET_deviceTokens_def by (rule withAuthContext_json_ok) (rule handleGet_json_ok)
  moreover have "json_ok (fst (POST_deviceTokens L E bl req D))"
    unfolding POST_deviceTokens_def by (rule withAuthContext_json_ok) (rule handlePost_json_ok)
  moreover have "json_ok (fst (DELETE_deviceTokens L E bl req D))"
    unfolding DELETE_deviceTokens_def by (rule withAuthContext_json_ok) (rule handleDelete_json_ok)
  moreover note voiceLog_json_ok [of L E req D] magicLink_json_ok [of L E req D]
    kindleLog_redirect [of L E req D]
  ultimately show ?thesis unfolding json_ok_def by blast
qed

theorem json_routes_surface_errors_witness:
  "(json_success (fst (GET_deviceTokens demo_lib demo_env [] (demo_request None) demo_db))
      \<or> json_error (fst (GET_deviceTokens demo_lib demo_env [] (demo_request None) demo_db)))
   \<and> redirect_303 (fst (POST_kindleLog demo_lib demo_env (demo_request None) demo_db))"
  using json_routes_surface_errors [of demo_lib demo_env "[]" "demo_request None" demo_db]
  by blast

text \<open>
  C3 as stated fails on the Kindle route: a form without a token is answered with a
  redirect of status 303, not with a JSON error.
\<close>

theorem kindle_error_is_redirect:
  "fst (POST_kindleLog demo_lib demo_env (demo_request None) demo_db)
     = Redirect 303 ''https://h/kindle?error=Missing%20authentication%20token''
   \<and> \<not> json_error (fst (POST_kindleLog demo_lib demo_env (demo_request None) demo_db))"
  by (simp add: POST_kindleLog_def demo_request_def demo_form_def form_or_def or_else_def
      redirectWithError_def demo_lib_def)

section \<open>Revocation of a device token\<close>

lemma deviceTokens_touch: "deviceTokens (touch t i D) =
    map (\<lambda>x. if dt_id x = i then x \<lparr> dt_lastUsedAt := Some t \<rparr> else x) (deviceTokens D)"
  by (simp add: touch_def)

lemma deviceTokens_revoke: "deviceTokens (revoke t i D) =
    map (\<lambda>x. if dt_id x = i then x \<lparr> dt_revokedAt := Some t \<rparr> else x) (deviceTokens D)"
  by (simp add: revoke_def)

lemma all_revoked_map:
  assumes "\<And>x. dt_token (f x) = dt_token x"
    and "\<And>x. dt_revokedAt x \<noteq> None \<Longrightarrow> dt_revokedAt (f x) \<noteq> None"
    and "all_revoked tok D" and "deviceTokens D' = map f (deviceTokens D)"
  shows "all_revoked tok D'"
proof -
  have "dt_revokedAt y \<noteq> None" if y: "y \<in> set (map f (deviceTokens D))" "dt_token y = tok" for y
  proof -
    from y(1) obtain x where x: "x \<in> set (deviceTokens D)" "y = f x" by auto
    then have "dt_token x = tok" using y(2) assms(1) by simp
    then have "dt_revokedAt x \<noteq> None" using x(1) assms(3) by (simp add: all_revoked_def list_all_iff)
    then show ?thesis using x(2) assms(2) by simp
  qed
  then show ?thesis unfolding all_revoked_def list_all_iff assms(4) by blast
qed

lemma all_revoked_touch: "all_revoked tok D \<Longrightarrow> all_revoked tok (touch t i D)"
  by (rule all_revoked_map [where f = "\<lambda>x. if dt_id x = i then x \<lparr> dt_lastUsedAt := Some t \<rparr> else x"])
     (simp_all add: deviceTokens_touch)

lemma all_revoked_revoke: "all_revoked tok D \<Longrightarrow> all_revoked tok (revoke t i D)"
  by (rule all_revoked_map [where f = "\<lambda>x. if dt_id x = i then x \<lparr> dt_revokedAt := Some t \<rparr> else x"])
     (simp_all add: deviceTokens_revoke)

lemma all_revoked_create:
  "all_revoked tok D \<Longrightarrow> create_deviceToken D r = Some D' \<Longrightarrow> dt_token r \<noteq> tok
     \<Longrightarrow> all_revoked tok D'"
  by (auto simp: all_revoked_def create_deviceToken_def split: if_splits)

lemma all_revoked_filter:
  "all_revoked tok D \<Longrightarrow> deviceTokens D' = filter P (deviceTokens D) \<Longrightarrow> all_revoked tok D'"
  by (simp add: all_revoked_def list_all_iff)

lemma handlePost_store:
  "snd (handlePost L E req a D) = D
   \<or> (\<exists>r. dt_token r = randomToken E \<and> create_deviceToken D r = Some (snd (handlePost L E req a D)))"
  by (auto simp: handlePost_def Let_def split: option.splits jsval.splits prod.splits)

lemma handleDelete_store:
  "snd (handleDelete L E req a D) = D \<or> (\<exists>i. snd (handleDelete L E req a D) = revoke (now E) i D)"
  by (auto simp: handleDelete_def split: option.splits)

lemma validateDeviceToken_store:
  "snd (validateDeviceToken E D t) = D \<or> (\<exists>i. snd (validateDeviceToken E D t) = touch (now E) i D)"
  by (auto simp: validateDeviceToken_def Let_def split: option.splits)

lemma step_all_revoked: "step tok D D' \<Longrightarrow> all_revoked tok D \<Longrightarrow> all_revoked tok D'"
proof (induction rule: step.induct)
  case (created E D L req a)
  then show ?case using handlePost_store [of L E req a D] all_revoked_create by metis
next
  case (revoked D L E req a)
  then show ?case using handleDelete_store [of L E req a D] all_revoked_revoke by metis
next
  case (validated D E t)
  then show ?case using validateDeviceToken_store [of E D t] all_revoked_touch by metis
next
  case (family_deleted D' fid D)
  then show ?case using all_revoked_filter by blast
next
  case (caretaker_deleted D' cid D)
  then show ?case using all_revoked_filter by blast
next
  case (elsewhere D' D)
  then show ?case by (simp add: all_revoked_def)
qed

lemma steps_all_revoked: "(step tok)\<^sup>*\<^sup>* D D' \<Longrightarrow> all_revoked tok D \<Longrightarrow> all_revoked tok D'"
  by (induction rule: rtranclp_induct) (auto intro: step_all_revoked)

lemma all_revoked_rejected:
  assumes "all_revoked tok D"
  shows "fst (validateDeviceToken E D tok) =
           (if tok \<in> set (map dt_token (deviceTokens D))
            then rejected ''Device token has been revoked'' else rejected ''Invalid device token'')"
proof (cases "deviceToken_by_token D tok")
  case None
  then have "tok \<notin> set (map dt_token (deviceTokens D))"
    by (auto simp: deviceToken_by_token_def find_None_set)
  then show ?thesis using None by (simp add: validateDeviceToken_def)
next
  case (Some x)
  then have x: "x \<in> set (deviceTokens D)" "dt_token x = tok"
    using find_Some_in [of "\<lambda>r. dt_token r = tok" "deviceTokens D" x]
    by (simp_all add: deviceToken_by_token_def)
  then have "dt_revokedAt x \<noteq> None" using assms by (simp add: all_revoked_def list_all_iff)
  moreover have "tok \<in> set (map dt_token (deviceTokens D))" using x by force
  ultimately show ?thesis using Some by (simp add: validateDeviceToken_def)
qed

lemma revoke_all_revoked:
  assumes "distinct (map dt_token (deviceTokens D))" and "r \<in> set (deviceTokens D)"
  shows "all_revoked (dt_token r) (revoke t (dt_id r) D)"
proof -
  have "dt_revokedAt y \<noteq> None"
    if y: "y \<in> set (deviceTokens (revoke t (dt_id r) D))" "dt_token y = dt_token r" for y
  proof -
    from y(1) obtain x where x: "x \<in> set (deviceTokens D)"
      "y = (if dt_id x = dt_id r then x \<lparr> dt_revokedAt := Some t \<rparr> else x)"
      unfolding deviceTokens_revoke by auto
    then have "dt_token x = dt_token r" using y(2) by (simp split: if_splits)
    then have "x = r" using assms x(1) by (meson distinct_map inj_onD)
    then show ?thesis using x(2) by simp
  qed
  then show ?thesis unfolding all_revoked_def list_all_iff by blast
qed

text \<open>
  C4, as the code has it. In a store that satisfies the constraints of the migration, once a
  DELETE with the id of a device token has succeeded, every later call of
  \<^verbatim>\<open>validateDeviceToken\<close> on the string of that token is rejected, whatever the handlers of
  the device tokens, \<^verbatim>\<open>validateDeviceToken\<close>, the deletion of a family or of a caretaker
  with its cascade, and the writes to other tables did in between: with the error
  \<^verbatim>\<open>Device token has been revoked\<close> as long as the table holds the string, and with
  \<^verbatim>\<open>Invalid device token\<close> once a cascade has deleted the row. A DELETE request that the
  wrapper hands to the handler with the context of an administrator of a family, and whose
  id matches no device token of that family, is answered by the route with 404 and leaves
  the store as it is.
\<close>

theorem revoked_token_stays_rejected:
  "(deviceToken_constraints D \<and> r \<in> set (deviceTokens D)
      \<and> req_query_id req = Some (dt_id r)
      \<and> DELETE_deviceTokens L E bl req D = (ok None, D1)
      \<and> (step (dt_token r))\<^sup>*\<^sup>* D1 D2
    \<longrightarrow> fst (validateDeviceToken E2 D2 (dt_token r)) =
          (if dt_token r \<in> set (map dt_token (deviceTokens D2))
           then rejected ''Device token has been revoked''
           else rejected ''Invalid device token''))
   \<and> (context_of L' E' bl' D' req' = Inr a \<and> isAdmin a \<and> or_null (familyId a) = Some fid
        \<and> or_null (req_query_id req') = Some i
        \<and> list_all (\<lambda>x. \<not> (dt_id x = i \<and> dt_familyId x = fid)) (deviceTokens D')
    \<longrightarrow> DELETE_deviceTokens L' E' bl' req' D'
          = (Json 404 False (Some ''Device token not found'') None, D'))"
proof (intro conjI impI)
  assume h: "deviceToken_constraints D \<and> r \<in> set (deviceTokens D)
      \<and> req_query_id req = Some (dt_id r)
      \<and> DELETE_deviceTokens L E bl req D = (ok None, D1)
      \<and> (step (dt_token r))\<^sup>*\<^sup>* D1 D2"
  from withAuthContext_cases [of L E bl "handleDelete L E" req D] h
  obtain a where a: "handleDelete L E req a D = (ok None, D1)"
    by (auto simp: DELETE_deviceTokens_def failure_def ok_def)
  then have D1: "D1 = revoke (now E) (dt_id r) D"
    using h
    by (auto simp: handleDelete_def failure_def ok_def or_null_def truthy_def
        split: if_splits option.splits)
  have "all_revoked (dt_token r) D1"
    unfolding D1 using h by (intro revoke_all_revoked) (simp_all add: deviceToken_constraints_def)
  then have "all_revoked (dt_token r) D2" using h steps_all_revoked by blast
  then show "fst (validateDeviceToken E2 D2 (dt_token r)) =
          (if dt_token r \<in> set (map dt_token (deviceTokens D2))
           then rejected ''Device token has been revoked''
           else rejected ''Invalid device token'')"
    by (rule all_revoked_rejected)
next
  assume h: "context_of L' E' bl' D' req' = Inr a \<and> isAdmin a \<and> or_null (familyId a) = Some fid
        \<and> or_null (req_query_id req') = Some i
        \<and> list_all (\<lambda>x. \<not> (dt_id x = i \<and> dt_familyId x = fid)) (deviceTokens D')"
  have "find (\<lambda>x. dt_id x = i \<and> dt_familyId x = fid) (deviceTokens D') = None"
    using h by (simp add: find_None_set list_all_iff)
  then have "handleDelete L' E' req' a D' = (Json 404 False (Some ''Device token not found'') None, D')"
    using h by (simp add: handleDelete_def failure_def)
  then show "DELETE_deviceTokens L' E' bl' req' D'
          = (Json 404 False (Some ''Device token not found'') None, D')"
    using h by (simp add: DELETE_deviceTokens_def withAuthContext_context)
qed

lemma demo_admin_context:
  "getAuthenticatedUser demo_lib demo_env [] demo_db demo_admin_request =
     (blank True) \<lparr> caretakerId := Some ''c1'', caretakerType := Some ''Parent'',
        caretakerRole := Some ''ADMIN'', familyId := Some ''f1'', familySlug := Some ''smith'',
        isSysAdmin := Some False, authType := Some ''CARETAKER'', betaparticipant := Some False,
        trialEnds := Some 1000, planExpires := None, planType := None, isExpired := Some True \<rparr>"
  by (simp add: getAuthenticatedUser_def demo_admin_request_def demo_request_def bearer_token_def
      or_null_def truthy_def cookie_result_def demo_db_def caretaker_family_def family_by_id_def
      account_of_family_def family_account_meta_def isSaasMode_def demo_env_def
      trial_plan_expired_def or_else_def Let_def)

lemma demo_delete:
  "DELETE_deviceTokens demo_lib demo_env [] demo_admin_request demo_db
     = (ok None, revoke 2000 ''d1'' demo_db)"
proof -
  have "req_query_id demo_admin_request = Some ''d1''"
    by (simp add: demo_admin_request_def demo_request_def)
  moreover have "find (\<lambda>r. dt_id r = ''d1'' \<and> dt_familyId r = ''f1'') (deviceTokens demo_db) \<noteq> None"
    by (simp add: demo_db_def)
  moreover have "now demo_env = 2000" by (simp add: demo_env_def)
  ultimately show ?thesis
    unfolding DELETE_deviceTokens_def withAuthContext_def demo_admin_context
    by (auto simp: Let_def blank_def is_true_def truthy_def or_null_def handleDelete_def isAdmin_def)
qed

lemma demo_unknown_context:
  "context_of demo_lib demo_env [] demo_db demo_unknown_request =
     Inr ((blank True) \<lparr> caretakerId := Some ''c1'', caretakerType := Some ''Parent'',
        caretakerRole := Some ''ADMIN'', familyId := Some ''f1'', familySlug := Some ''smith'',
        isSysAdmin := Some False, authType := Some ''CARETAKER'', betaparticipant := Some False,
        trialEnds := Some 1000, planExpires := None, planType := None, isExpired := Some True \<rparr>)"
proof -
  have "getAuthenticatedUser demo_lib demo_env [] demo_db demo_unknown_request
      = getAuthenticatedUser demo_lib demo_env [] demo_db demo_admin_request"
    by (simp add: getAuthenticatedUser_def demo_unknown_request_def demo_admin_request_def
        demo_request_def bearer_token_def or_null_def truthy_def)
  then show ?thesis
    unfolding context_of_def demo_admin_context
    by (simp add: Let_def blank_def is_true_def truthy_def)
qed

lemma demo_created:
  "snd (handlePost demo_lib demo_env demo_create_request
          ((blank True) \<lparr> caretakerId := Some ''c1'', caretakerRole := Some ''ADMIN'',
                          familyId := Some ''f1'' \<rparr>)
          (revoke 2000 ''d1'' demo_db))
   = (revoke 2000 ''d1'' demo_db) \<lparr> deviceTokens :=
        deviceTokens (revoke 2000 ''d1'' demo_db) @
        [\<lparr> dt_id = ''d2'', dt_token = ''0123456789abcdef'', dt_name = ''Tablet'',
           dt_familyId = ''f1'', dt_caretakerId = ''c1'', dt_expiresAt = None,
           dt_revokedAt = None, dt_lastUsedAt = None, dt_createdAt = 2000 \<rparr>] \<rparr>"
  by (simp add: handlePost_def isAdmin_def blank_def or_null_def truthy_def
      demo_create_request_def demo_admin_request_def demo_request_def demo_lib_def demo_env_def
      create_deviceToken_def revoke_def demo_db_def caretaker_by_id_def family_by_id_def Let_def)

theorem revoked_token_stays_rejected_witness:
  "DELETE_deviceTokens demo_lib demo_env [] demo_admin_request demo_db
     = (ok None, revoke 2000 ''d1'' demo_db)
   \<and> ''0123456789abcdef'' \<in> set (map dt_token (deviceTokens
        (snd (handlePost demo_lib demo_env demo_create_request
          ((blank True) \<lparr> caretakerId := Some ''c1'', caretakerRole := Some ''ADMIN'',
                          familyId := Some ''f1'' \<rparr>)
          (revoke 2000 ''d1'' demo_db)))))
   \<and> fst (validateDeviceToken demo_env
          (snd (validateDeviceToken demo_env
             (snd (handlePost demo_lib demo_env demo_create_request
                ((blank True) \<lparr> caretakerId := Some ''c1'', caretakerRole := Some ''ADMIN'',
                                familyId := Some ''f1'' \<rparr>)
                (revoke 2000 ''d1'' demo_db)))
             ''0123456789abcdef''))
          ''fedcba9876543210'')
       = rejected ''Device token has been revoked''
   \<and> DELETE_deviceTokens demo_lib demo_env [] demo_unknown_request demo_db
       = (Json 404 False (Some ''Device token not found'') None, demo_db)"
proof -
  let ?r = "hd (deviceTokens demo_db)"
  let ?a = "(blank True) \<lparr> caretakerId := Some ''c1'', caretakerRole := Some ''ADMIN'',
                          familyId := Some ''f1'' \<rparr>"
  let ?b = "(blank True) \<lparr> caretakerId := Some ''c1'', caretakerType := Some ''Parent'',
        caretakerRole := Some ''ADMIN'', familyId := Some ''f1'', familySlug := Some ''smith'',
        isSysAdmin := Some False, authType := Some ''CARETAKER'', betaparticipant := Some False,
        trialEnds := Some 1000, planExpires := None, planType := None, isExpired := Some True \<rparr>"
  let ?D1 = "revoke 2000 ''d1'' demo_db"
  let ?D2 = "snd (handlePost demo_lib demo_env demo_create_request ?a ?D1)"
  let ?D3 = "snd (validateDeviceToken demo_env ?D2 ''0123456789abcdef'')"
  have r: "?r \<in> set (deviceTokens demo_db)" by (simp add: demo_db_def)
  have i: "req_query_id demo_admin_request = Some (dt_id ?r)"
    by (simp add: demo_admin_request_def demo_request_def demo_db_def)
  have t: "dt_token ?r = ''fedcba9876543210''" by (simp add: demo_db_def)
  have "randomToken demo_env \<noteq> dt_token ?r" by (simp add: demo_env_def demo_db_def)
  then have "step (dt_token ?r) ?D1 ?D2" by (rule step.created)
  moreover have "step (dt_token ?r) ?D2 ?D3" by (rule step.validated)
  ultimately have s: "(step (dt_token ?r))\<^sup>*\<^sup>* ?D1 ?D3" by auto
  have new: "''0123456789abcdef'' \<in> set (map dt_token (deviceTokens ?D2))"
    unfolding demo_created by simp
  have "map dt_token (deviceTokens ?D3) = map dt_token (deviceTokens ?D2)"
    using validateDeviceToken_store [of demo_env ?D2 "''0123456789abcdef''"]
    by (auto simp: deviceTokens_touch comp_def if_distrib cong: if_cong)
  then have old: "dt_token ?r \<in> set (map dt_token (deviceTokens ?D3))"
    unfolding t demo_created by (simp add: revoke_def demo_db_def)
  have c: "isAdmin ?b \<and> or_null (familyId ?b) = Some ''f1''
      \<and> or_null (req_query_id demo_unknown_request) = Some ''d9''
      \<and> list_all (\<lambda>x. \<not> (dt_id x = ''d9'' \<and> dt_familyId x = ''f1'')) (deviceTokens demo_db)"
    by (simp add: isAdmin_def blank_def or_null_def truthy_def demo_unknown_request_def
        demo_db_def)
  from revoked_token_stays_rejected [of demo_db ?r demo_admin_request demo_lib demo_env "[]"
      ?D1 ?D3 demo_env demo_lib demo_env "[]" demo_db demo_unknown_request ?b "''f1''" "''d9''"]
    demo_constraints r i demo_delete s old demo_unknown_context c new
  show ?thesis unfolding t by simp
qed

text \<open>
  C4 as stated fails on the error of the rejection: after the revocation, the deletion of
  the family deletes the row of the device token through the cascade of the migration, and
  \<^verbatim>\<open>validateDeviceToken\<close> then rejects the string as an unknown one.
\<close>

theorem revoked_token_row_deleted:
  "DELETE_deviceTokens demo_lib demo_env [] demo_admin_request demo_db
     = (ok None, revoke 2000 ''d1'' demo_db)
   \<and> step ''fedcba9876543210'' (revoke 2000 ''d1'' demo_db) demo_family_deleted
   \<and> fst (validateDeviceToken demo_env demo_family_deleted ''fedcba9876543210'')
       = rejected ''Invalid device token''
   \<and> fst (validateDeviceToken demo_env demo_family_deleted ''fedcba9876543210'')
       \<noteq> rejected ''Device token has been revoked''"
proof -
  have "deviceTokens demo_family_deleted
      = filter (\<lambda>r. dt_familyId r \<noteq> ''f1'') (deviceTokens (revoke 2000 ''d1'' demo_db))"
    by (simp add: demo_family_deleted_def)
  then have "step ''fedcba9876543210'' (revoke 2000 ''d1'' demo_db) demo_family_deleted"
    by (rule step.family_deleted)
  moreover have "fst (validateDeviceToken demo_env demo_family_deleted ''fedcba9876543210'')
       = rejected ''Invalid device token''"
    by (simp add: validateDeviceToken_def deviceToken_by_token_def demo_family_deleted_def
        revoke_def demo_db_def)
  moreover have "rejected ''Invalid device token'' \<noteq> rejected ''Device token has been revoked''"
    by (simp add: rejected_def blank_def)
  ultimately show ?thesis using demo_delete by simp
qed

section \<open>The wrapper withAuth\<close>

text \<open>
  C5. For every request and handler, the wrapper answers 401 with the body
  \<^verbatim>\<open>{success: false, error: 'Authentication required'}\<close> exactly when the resolver does not
  authenticate the request, and leaves the store alone; otherwise its result is the
  handler's.
\<close>

theorem withAuth_decision:
  "withAuth L E bl handler req D =
     (if authenticated (getAuthenticatedUser L E bl D req) then handler req D
      else (Json 401 False (Some ''Authentication required'') None, D))"
  by (simp add: withAuth_def failure_def Let_def)

section \<open>Invalidated tokens\<close>

lemma map_of_bl_set: "map_of (bl_set k v bl) = (map_of bl)(k \<mapsto> v)"
  by (induction bl) (auto simp: fun_eq_iff)

lemma keys_of_bl_set: "set (map fst (bl_set k v bl)) = insert k (set (map fst bl))"
proof (induction bl)
  case Nil
  show ?case by simp
next
  case (Cons x bl)
  obtain a b where x: "x = (a, b)" by (cases x)
  show ?case using Cons unfolding x by (cases "a = k") auto
qed

lemma keys_bl_set: "distinct (map fst bl) \<Longrightarrow> distinct (map fst (bl_set k v bl))"
proof (induction bl)
  case Nil
  show ?case by simp
next
  case (Cons x bl)
  obtain a b where x: "x = (a, b)" by (cases x)
  show ?case using Cons keys_of_bl_set [of k v bl] unfolding x by (cases "a = k") auto
qed

lemma map_of_bl_delete: "map_of (bl_delete k bl) = (map_of bl)(k := None)"
  by (induction bl) (auto simp: bl_delete_def fun_eq_iff)

lemma keys_bl_delete: "distinct (map fst bl) \<Longrightarrow> distinct (map fst (bl_delete k bl))"
  by (simp add: bl_delete_def distinct_map_filter)

lemma bl_has_map_of: "bl_has bl k = (map_of bl k \<noteq> None)"
  by (simp add: bl_has_def map_of_eq_None_iff)

text \<open>The loop of the timer over a part of the entries, on any map.\<close>

lemma map_of_sweep:
  "map_of (fold (\<lambda>(token, expiry) m. if t > expiry then bl_delete token m else m) es m) k =
     (if \<exists>expiry. (k, expiry) \<in> set es \<and> t > expiry then None else map_of m k)"
proof (induction es arbitrary: m)
  case Nil
  then show ?case by simp
next
  case (Cons x es)
  obtain token expiry where x: "x = (token, expiry)" by (cases x)
  show ?case
    unfolding x using Cons.IH [of "if t > expiry then bl_delete token m else m"]
    by (auto simp: map_of_bl_delete)
qed

lemma keys_sweep:
  "distinct (map fst m) \<Longrightarrow>
   distinct (map fst (fold (\<lambda>(token, expiry) m. if t > expiry then bl_delete token m else m) es m))"
  by (induction es arbitrary: m) (auto simp: keys_bl_delete split: prod.splits)

lemma map_of_cleanup:
  assumes "distinct (map fst bl)"
  shows "map_of (cleanup t bl) k =
     (case map_of bl k of None \<Rightarrow> None | Some expiry \<Rightarrow> if t > expiry then None else Some expiry)"
proof -
  have "(\<exists>expiry. (k, expiry) \<in> set bl \<and> t > expiry) = (\<exists>expiry. map_of bl k = Some expiry \<and> t > expiry)"
    using assms by auto
  then show ?thesis
    unfolding cleanup_def map_of_sweep by (auto split: option.splits)
qed

lemma keys_cleanup: "distinct (map fst bl) \<Longrightarrow> distinct (map fst (cleanup t bl))"
  unfolding cleanup_def by (rule keys_sweep)

lemma keys_invalidateToken:
  "distinct (map fst bl) \<Longrightarrow> distinct (map fst (snd (invalidateToken L bl t)))"
  by (auto simp: invalidateToken_def keys_bl_set split: option.splits)

lemma run_keeps:
  "distinct (map fst bl) \<Longrightarrow> map_of bl t = Some (e * 1000) \<Longrightarrow> jwt_decode L t = Some p
   \<Longrightarrow> p_exp p = Some e \<Longrightarrow> list_all (\<lambda>n. n \<le> e * 1000) (cleanups es)
   \<Longrightarrow> map_of (run L bl es) t = Some (e * 1000)"
proof (induction es arbitrary: bl)
  case Nil
  then show ?case by simp
next
  case (Cons ev es)
  show ?case
  proof (cases ev)
    case (Invalidate t')
    have "map_of (snd (invalidateToken L bl t')) t = Some (e * 1000)"
      using Cons.prems(2-4)
      by (cases "t' = t") (auto simp: invalidateToken_def map_of_bl_set split: option.splits)
    moreover have "distinct (map fst (snd (invalidateToken L bl t')))"
      using Cons.prems(1) by (rule keys_invalidateToken)
    ultimately show ?thesis using Cons Invalidate by simp
  next
    case (Cleanup n)
    have "map_of (cleanup n bl) t = Some (e * 1000)"
      using Cons.prems Cleanup by (simp add: map_of_cleanup)
    moreover have "distinct (map fst (cleanup n bl))"
      using Cons.prems(1) by (rule keys_cleanup)
    ultimately show ?thesis using Cons Cleanup by simp
  qed
qed

text \<open>
  C6. Let the blacklist hold one entry for a key, and let \<^verbatim>\<open>invalidateToken\<close> return true
  for a token \<open>t\<close> whose \<^verbatim>\<open>exp\<close> claim is \<open>e\<close> seconds. Whatever tokens are invalidated and
  whenever the timer runs afterwards, a call of the resolver with
  \<^verbatim>\<open>Authorization: Bearer t\<close> at a time that is not past \<open>e * 1000\<close> milliseconds, the timer
  having run only before that call, is rejected with the error
  \<^verbatim>\<open>Token has been invalidated\<close>. A run of the timer removes an entry exactly when the
  time of the run exceeds the expiry stored with the entry: the entries of the other
  keys stay as they are, and no entry is added.
\<close>

theorem invalidated_token_stays_rejected:
  assumes "distinct (map fst bl)" and "invalidateToken L bl t = (True, bl')"
    and "jwt_decode L t = Some p" and "p_exp p = Some e"
    and "t \<noteq> []"
    and "list_all (\<lambda>n. n \<le> now E) (cleanups es)" and "now E \<le> e * 1000"
  shows "getAuthenticatedUser L E (run L bl' es) D (bearer_request req t)
           = rejected ''Token has been invalidated''
     \<and> (\<forall>n k. map_of (cleanup n bl) k =
           (case map_of bl k of
              None \<Rightarrow> None
            | Some expiry \<Rightarrow> if n > expiry then None else Some expiry))"
proof -
  have bl': "bl' = bl_set t (e * 1000) bl"
    using assms(2-4) by (auto simp: invalidateToken_def split: if_splits)
  have stored: "map_of bl' t = Some (e * 1000)"
    unfolding bl' by (simp add: map_of_bl_set)
  have keys: "distinct (map fst bl')"
    unfolding bl' using assms(1) by (rule keys_bl_set)
  have early: "list_all (\<lambda>n. n \<le> e * 1000) (cleanups es)"
    using assms(6,7) by (auto simp: list_all_iff)
  have "map_of (run L bl' es) t = Some (e * 1000)"
    using keys stored assms(3,4) early by (rule run_keeps)
  then have "bl_has (run L bl' es) t"
    by (simp add: bl_has_map_of)
  moreover have "or_null (bearer_token (bearer_request req t)) = Some t"
    using assms(5) by (simp add: bearer_token_bearer_request or_null_def truthy_def)
  ultimately show ?thesis
    using assms(1) by (simp add: getAuthenticatedUser_def map_of_cleanup)
qed

theorem invalidated_token_stays_rejected_witness:
  "invalidateToken demo_lib [(''A'', 1000)] ''R'' = (True, [(''A'', 1000), (''R'', 5000)])
   \<and> getAuthenticatedUser demo_lib demo_env
        (run demo_lib [(''A'', 1000), (''R'', 5000)] [Cleanup 1500, Invalidate ''A'', Cleanup 2000])
        demo_db (bearer_request (demo_request None) ''R'')
      = rejected ''Token has been invalidated''
   \<and> map_of (cleanup 1500 [(''A'', 1000)]) ''A'' = None"
proof -
  have i: "invalidateToken demo_lib [(''A'', 1000)] ''R'' = (True, [(''A'', 1000), (''R'', 5000)])"
    by (simp add: invalidateToken_def demo_lib_def demo_payloads_def demo_regular_def
        demo_setup_def)
  have d: "jwt_decode demo_lib ''R'' = Some demo_regular"
    by (simp add: demo_lib_def demo_payloads_def)
  have e: "p_exp demo_regular = Some 5"
    by (simp add: demo_regular_def demo_setup_def)
  have c: "list_all (\<lambda>n. n \<le> now demo_env) (cleanups [Cleanup 1500, Invalidate ''A'', Cleanup 2000])"
    by (simp add: demo_env_def)
  have n: "now demo_env \<le> 5 * 1000" by (simp add: demo_env_def)
  from invalidated_token_stays_rejected [OF _ i d e _ c n, of demo_db "demo_request None"] i
  show ?thesis by simp
qed

section \<open>The branches of the resolver\<close>

lemma finders_deviceTokens:
  "family_by_id (D \<lparr> deviceTokens := dts \<rparr>) = family_by_id D"
  "caretaker_by_id (D \<lparr> deviceTokens := dts \<rparr>) = caretaker_by_id D"
  "account_by_id (D \<lparr> deviceTokens := dts \<rparr>) = account_by_id D"
  "account_of_family (D \<lparr> deviceTokens := dts \<rparr>) = account_of_family D"
  "caretakers (D \<lparr> deviceTokens := dts \<rparr>) = caretakers D"
  by (simp_all add: fun_eq_iff family_by_id_def caretaker_by_id_def account_by_id_def
      account_of_family_def)

lemma relations_deviceTokens:
  "account_family (D \<lparr> deviceTokens := dts \<rparr>) = account_family D"
  "account_caretaker (D \<lparr> deviceTokens := dts \<rparr>) = account_caretaker D"
  "caretaker_family (D \<lparr> deviceTokens := dts \<rparr>) = caretaker_family D"
  unfolding fun_eq_iff account_family_def account_caretaker_def caretaker_family_def
    finders_deviceTokens by simp_all

lemmas lookups_deviceTokens = finders_deviceTokens relations_deviceTokens

lemma account_result_deviceTokens:
  "account_result E (D \<lparr> deviceTokens := dts \<rparr>) d = account_result E D d"
  unfolding account_result_def lookups_deviceTokens by (rule refl)

lemma regular_result_deviceTokens:
  "regular_result E (D \<lparr> deviceTokens := dts \<rparr>) d = regular_result E D d"
  unfolding regular_result_def lookups_deviceTokens by (rule refl)

lemma cookie_result_deviceTokens:
  "cookie_result E (D \<lparr> deviceTokens := dts \<rparr>) c = cookie_result E D c"
  unfolding cookie_result_def lookups_deviceTokens by (rule refl)

lemma getAuthenticatedUser_deviceTokens:
  "getAuthenticatedUser L E bl (D \<lparr> deviceTokens := dts \<rparr>) req = getAuthenticatedUser L E bl D req"
  unfolding getAuthenticatedUser_def account_result_deviceTokens regular_result_deviceTokens
    cookie_result_deviceTokens by (rule refl)




section \<open>The wrapper withAdminAuth\<close>

text \<open>
  C8. For every authenticated request, the wrapper runs the handler exactly when the role
  of the caretaker is \<^verbatim>\<open>ADMIN\<close>, or \<^verbatim>\<open>isSysAdmin\<close> is true, or the caretaker id of the
  result names a caretaker that is not deleted and whose login id is \<^verbatim>\<open>00\<close>; in every
  other case it answers 403 with the error \<^verbatim>\<open>Admin access required\<close>. The witness is a
  system caretaker whose role is \<^verbatim>\<open>USER\<close>.
\<close>

theorem withAdminAuth_decision:
  assumes "authenticated (getAuthenticatedUser L E bl D req)"
  shows "withAdminAuth L E bl handler req D =
     (let r = getAuthenticatedUser L E bl D req in
      if caretakerRole r = Some ''ADMIN'' \<or> isSysAdmin r = Some True
         \<or> (\<exists>c\<in>set (caretakers D). or_null (caretakerId r) = Some (crt_id c)
               \<and> crt_loginId c = ''00'' \<and> crt_deletedAt c = None)
      then handler req D
      else (Json 403 False (Some ''Admin access required'') None, D))"
proof -
  let ?r = "getAuthenticatedUser L E bl D req"
  have sys: "(case or_null (caretakerId ?r) of None \<Rightarrow> False
        | Some cid \<Rightarrow> find (\<lambda>c. crt_id c = cid \<and> crt_loginId c = ''00'' \<and> crt_deletedAt c = None)
                      (caretakers D) \<noteq> None)
      = (\<exists>c\<in>set (caretakers D). or_null (caretakerId ?r) = Some (crt_id c)
               \<and> crt_loginId c = ''00'' \<and> crt_deletedAt c = None)"
    by (auto simp: find_None_set split: option.splits)
  show ?thesis
    using assms unfolding withAdminAuth_def Let_def sys
    by (auto simp: failure_def is_true_def)
qed

theorem withAdminAuth_decision_witness:
  "authenticated (getAuthenticatedUser demo_lib demo_env [] demo_db
      (demo_request (Some ''Bearer R'')))
   \<and> caretakerRole (getAuthenticatedUser demo_lib demo_env [] demo_db
      (demo_request (Some ''Bearer R''))) = Some ''USER''
   \<and> withAdminAuth demo_lib demo_env [] (\<lambda>req D. (ok None, D))
        (demo_request (Some ''Bearer R'')) demo_db = (ok None, demo_db)"
proof -
  have r: "getAuthenticatedUser demo_lib demo_env [] demo_db (demo_request (Some ''Bearer R''))
      = regular_result demo_env demo_db demo_regular"
    using demo_bearer [of "CHR ''R''"]
    by (simp add: getAuthenticatedUser_def demo_lib_def demo_payloads_def demo_regular_def
        demo_setup_def truthy_def)
  have v: "regular_result demo_env demo_db demo_regular =
     (blank True) \<lparr> caretakerId := Some ''c0'', caretakerType := None,
        caretakerRole := Some ''USER'', familyId := Some ''f1'', familySlug := Some ''smith'',
        isSysAdmin := Some False, authType := Some ''CARETAKER'', betaparticipant := Some False,
        trialEnds := Some 1000, planExpires := None, planType := None, isExpired := Some True \<rparr>"
    by (simp add: regular_result_def demo_regular_def demo_setup_def demo_db_def
        family_by_id_def account_of_family_def family_account_meta_def Let_def
        or_null_def truthy_def is_true_def or_else_def isSaasMode_def demo_env_def
        trial_plan_expired_def)
  have a: "authenticated (getAuthenticatedUser demo_lib demo_env [] demo_db
      (demo_request (Some ''Bearer R'')))"
    unfolding r v by (simp add: blank_def)
  have c: "\<exists>c\<in>set (caretakers demo_db). or_null (Some ''c0'') = Some (crt_id c)
      \<and> crt_loginId c = ''00'' \<and> crt_deletedAt c = None"
    by (simp add: demo_db_def or_null_def truthy_def)
  from withAdminAuth_decision [OF a, of "\<lambda>req D. (ok None, D)"] a c
  show ?thesis unfolding r v by (simp add: blank_def Let_def)
qed

section \<open>The listing of the device tokens\<close>

lemma insort_key_map_commute:
  "insort_key k (f x) (map f xs) = map f (insort_key (\<lambda>y. k (f y)) x xs)"
  by (induction xs) simp_all

lemma sort_key_map_commute: "sort_key k (map f xs) = map f (sort_key (\<lambda>y. k (f y)) xs)"
  by (induction xs) (simp_all add: insort_key_map_commute)

lemma family_tokens_redact:
  "map redact (family_tokens D fid) =
     sort_key (\<lambda>r. - dt_createdAt r) (filter (\<lambda>r. dt_familyId r = fid) (map redact (deviceTokens D)))"
  by (simp add: family_tokens_def sort_key_map_commute filter_map comp_def redact_def)

lemma mask_redact: "mask t D (redact r) = mask t D r"
  by (simp add: mask_def redact_def split: option.split)

lemma mask_deviceTokens: "mask t (D \<lparr> deviceTokens := dts \<rparr>) = mask t D"
  by (simp add: fun_eq_iff mask_def finders_deviceTokens)

lemma listing_redact:
  assumes "map redact dts = map redact (deviceTokens D)"
  shows "map (mask t (D \<lparr> deviceTokens := dts \<rparr>)) (family_tokens (D \<lparr> deviceTokens := dts \<rparr>) fid)
       = map (mask t D) (family_tokens D fid)"
proof -
  have m: "map (mask t D) xs = map (mask t D) (map redact xs)" for xs
    by (simp add: mask_redact)
  have "map redact (family_tokens (D \<lparr> deviceTokens := dts \<rparr>) fid) = map redact (family_tokens D fid)"
    unfolding family_tokens_redact using assms by simp
  then have "map (mask t D) (family_tokens (D \<lparr> deviceTokens := dts \<rparr>) fid)
           = map (mask t D) (family_tokens D fid)"
    using m [of "family_tokens (D \<lparr> deviceTokens := dts \<rparr>) fid"] m [of "family_tokens D fid"]
    by simp
  then show ?thesis by (simp only: mask_deviceTokens)
qed

lemma handleGet_redact:
  assumes "map redact dts = map redact (deviceTokens D)"
  shows "fst (handleGet L E req a (D \<lparr> deviceTokens := dts \<rparr>)) = fst (handleGet L E req a D)"
  by (simp add: handleGet_def listing_redact [OF assms] split: option.split)

lemma family_by_slug_deviceTokens:
  "family_by_slug (D \<lparr> deviceTokens := dts \<rparr>) = family_by_slug D"
  by (simp add: fun_eq_iff family_by_slug_def)

lemma family_id_of_route_deviceTokens:
  "family_id_of_route (D \<lparr> deviceTokens := dts \<rparr>) = family_id_of_route D"
  unfolding fun_eq_iff family_id_of_route_def family_by_slug_deviceTokens by simp

lemma familySetups_deviceTokens: "familySetups (D \<lparr> deviceTokens := dts \<rparr>) = familySetups D"
  by simp

lemma context_of_deviceTokens:
  "context_of L E bl (D \<lparr> deviceTokens := dts \<rparr>) req = context_of L E bl D req"
  unfolding context_of_def getAuthenticatedUser_deviceTokens family_id_of_route_deviceTokens
    familySetups_deviceTokens
  by (rule refl)

lemma GET_deviceTokens_redact:
  assumes "map redact dts = map redact (deviceTokens D)"
  shows "fst (GET_deviceTokens L E bl req (D \<lparr> deviceTokens := dts \<rparr>))
       = fst (GET_deviceTokens L E bl req D)"
  unfolding GET_deviceTokens_def withAuthContext_context context_of_deviceTokens
  by (simp add: handleGet_redact [OF assms] split: sum.split)

lemma family_tokens_rows:
  "set (family_tokens D fid) = {r \<in> set (deviceTokens D). dt_familyId r = fid}"
  by (auto simp: family_tokens_def)

text \<open>
  C9. Whenever the route answers a GET with a listing, the wrapper has handed the request
  to the handler with the context of a family, and the entries are those of the rows of
  that family, newest first, one entry for each row. Every field of an entry is fixed by
  the row and its caretaker: the id, the name, the name of the caretaker and the four
  dates are copied, \<^verbatim>\<open>tokenPreview\<close> is the first 8 characters of the token followed by
  \<^verbatim>\<open>...\<close>, and \<^verbatim>\<open>isActive\<close> is true exactly when the row is not revoked and has no expiry
  or one that the current time is before. No entry carries more of a token than its first
  8 characters: the response is the same in every store whose device tokens differ from
  those of this one only after the first 8 characters of their tokens.
\<close>

theorem listing_is_masked:
  assumes "GET_deviceTokens L E bl req D = (ok (Some (Listing maskedTokens)), D')"
  shows "(\<exists>a fid. context_of L E bl D req = Inr a \<and> or_null (familyId a) = Some fid
            \<and> set (family_tokens D fid) = {r \<in> set (deviceTokens D). dt_familyId r = fid}
            \<and> list_all2
                (\<lambda>r m. \<exists>c. caretaker_by_id D (dt_caretakerId r) = Some c
                   \<and> m = \<lparr> mt_id = dt_id r, tokenPreview = take 8 (dt_token r) @ ''...'',
                           mt_name = dt_name r, caretakerName = crt_name c,
                           mt_expiresAt = dt_expiresAt r, mt_revokedAt = dt_revokedAt r,
                           mt_lastUsedAt = dt_lastUsedAt r, mt_createdAt = dt_createdAt r,
                           isActive = (dt_revokedAt r = None
                              \<and> (dt_expiresAt r = None
                                  \<or> (\<exists>e. dt_expiresAt r = Some e \<and> now E < e))) \<rparr>)
                (family_tokens D fid) maskedTokens)
     \<and> (\<forall>dts. map redact dts = map redact (deviceTokens D)
          \<longrightarrow> fst (GET_deviceTokens L E bl req (D \<lparr> deviceTokens := dts \<rparr>))
                = ok (Some (Listing maskedTokens)))"
proof -
  have g: "(case context_of L E bl D req of Inl resp \<Rightarrow> (resp, D) | Inr a \<Rightarrow> handleGet L E req a D)
       = (ok (Some (Listing maskedTokens)), D')"
    using assms by (simp add: GET_deviceTokens_def withAuthContext_context)
  have "\<exists>a. context_of L E bl D req = Inr a"
  proof (cases "context_of L E bl D req")
    case (Inl resp)
    then have "resp = failure 401 ''Authentication required''
             \<or> resp = failure 403 ''Setup token is not authorized for this family''"
      by (auto simp: context_of_def Let_def split: if_splits option.splits)
    then show ?thesis using g Inl by (auto simp: failure_def ok_def)
  qed simp
  then obtain a where c: "context_of L E bl D req = Inr a" ..
  then have a: "handleGet L E req a D = (ok (Some (Listing maskedTokens)), D')"
    using g by simp
  then obtain fid where fid: "or_null (familyId a) = Some fid"
    "those (map (mask (now E) D) (family_tokens D fid)) = Some maskedTokens"
    by (auto simp: handleGet_def failure_def ok_def split: if_splits option.splits)
  have "list_all2 (\<lambda>r m. mask (now E) D r = Some m) (family_tokens D fid) maskedTokens"
    using fid(2) by (rule those_map_list_all2)
  then have "list_all2
                (\<lambda>r m. \<exists>c. caretaker_by_id D (dt_caretakerId r) = Some c
                   \<and> m = \<lparr> mt_id = dt_id r, tokenPreview = take 8 (dt_token r) @ ''...'',
                           mt_name = dt_name r, caretakerName = crt_name c,
                           mt_expiresAt = dt_expiresAt r, mt_revokedAt = dt_revokedAt r,
                           mt_lastUsedAt = dt_lastUsedAt r, mt_createdAt = dt_createdAt r,
                           isActive = (dt_revokedAt r = None
                              \<and> (dt_expiresAt r = None
                                  \<or> (\<exists>e. dt_expiresAt r = Some e \<and> now E < e))) \<rparr>)
                (family_tokens D fid) maskedTokens"
    by (rule list_all2_mono) (auto simp: mask_def split: option.splits)
  then have one: "\<exists>a fid. context_of L E bl D req = Inr a \<and> or_null (familyId a) = Some fid
            \<and> set (family_tokens D fid) = {r \<in> set (deviceTokens D). dt_familyId r = fid}
            \<and> list_all2
                (\<lambda>r m. \<exists>c. caretaker_by_id D (dt_caretakerId r) = Some c
                   \<and> m = \<lparr> mt_id = dt_id r, tokenPreview = take 8 (dt_token r) @ ''...'',
                           mt_name = dt_name r, caretakerName = crt_name c,
                           mt_expiresAt = dt_expiresAt r, mt_revokedAt = dt_revokedAt r,
                           mt_lastUsedAt = dt_lastUsedAt r, mt_createdAt = dt_createdAt r,
                           isActive = (dt_revokedAt r = None
                              \<and> (dt_expiresAt r = None
                                  \<or> (\<exists>e. dt_expiresAt r = Some e \<and> now E < e))) \<rparr>)
                (family_tokens D fid) maskedTokens"
    using c fid(1) family_tokens_rows by blast
  have two: "fst (GET_deviceTokens L E bl req (D \<lparr> deviceTokens := dts \<rparr>))
                = ok (Some (Listing maskedTokens))"
    if "map redact dts = map redact (deviceTokens D)" for dts
    using GET_deviceTokens_redact [OF that] assms by simp
  show ?thesis using one two by blast
qed

lemma demo_listing:
  "GET_deviceTokens demo_lib demo_env [] demo_admin_request demo_db
     = (ok (Some (Listing [\<lparr> mt_id = ''d1'', tokenPreview = ''fedcba98...'', mt_name = ''Kindle'',
           caretakerName = ''Ann'', mt_expiresAt = None, mt_revokedAt = None,
           mt_lastUsedAt = None, mt_createdAt = 500, isActive = True \<rparr>])), demo_db)"
proof -
  have "family_tokens demo_db ''f1'' = deviceTokens demo_db"
    by (simp add: family_tokens_def demo_db_def)
  then have "those (map (mask 2000 demo_db) (family_tokens demo_db ''f1'')) =
     Some [\<lparr> mt_id = ''d1'', tokenPreview = ''fedcba98...'', mt_name = ''Kindle'',
           caretakerName = ''Ann'', mt_expiresAt = None, mt_revokedAt = None,
           mt_lastUsedAt = None, mt_createdAt = 500, isActive = True \<rparr>]"
    by (simp add: demo_db_def mask_def caretaker_by_id_def)
  moreover have "now demo_env = 2000" by (simp add: demo_env_def)
  ultimately show ?thesis
    unfolding GET_deviceTokens_def withAuthContext_def demo_admin_context
    by (simp add: Let_def blank_def is_true_def truthy_def or_null_def handleGet_def isAdmin_def)
qed

theorem listing_is_masked_witness:
  "GET_deviceTokens demo_lib demo_env [] demo_admin_request demo_db
     = (ok (Some (Listing [\<lparr> mt_id = ''d1'', tokenPreview = ''fedcba98...'', mt_name = ''Kindle'',
           caretakerName = ''Ann'', mt_expiresAt = None, mt_revokedAt = None,
           mt_lastUsedAt = None, mt_createdAt = 500, isActive = True \<rparr>])), demo_db)
   \<and> map dt_token (deviceTokens demo_db) = [''fedcba9876543210'']
   \<and> map dt_token (deviceTokens demo_other_tail) = [''fedcba98ffffffff'']
   \<and> fst (GET_deviceTokens demo_lib demo_env [] demo_admin_request demo_other_tail)
     = ok (Some (Listing [\<lparr> mt_id = ''d1'', tokenPreview = ''fedcba98...'', mt_name = ''Kindle'',
           caretakerName = ''Ann'', mt_expiresAt = None, mt_revokedAt = None,
           mt_lastUsedAt = None, mt_createdAt = 500, isActive = True \<rparr>]))"
proof -
  have r: "map redact (deviceTokens demo_other_tail) = map redact (deviceTokens demo_db)"
    by (simp add: demo_other_tail_def demo_db_def redact_def)
  have o: "demo_db \<lparr> deviceTokens := deviceTokens demo_other_tail \<rparr> = demo_other_tail"
    by (simp add: demo_other_tail_def)
  have t: "map dt_token (deviceTokens demo_db) = [''fedcba9876543210'']
     \<and> map dt_token (deviceTokens demo_other_tail) = [''fedcba98ffffffff'']"
    by (simp add: demo_other_tail_def demo_db_def)
  from listing_is_masked [OF demo_listing] r
  have "fst (GET_deviceTokens demo_lib demo_env [] demo_admin_request
               (demo_db \<lparr> deviceTokens := deviceTokens demo_other_tail \<rparr>))
     = ok (Some (Listing [\<lparr> mt_id = ''d1'', tokenPreview = ''fedcba98...'', mt_name = ''Kindle'',
           caretakerName = ''Ann'', mt_expiresAt = None, mt_revokedAt = None,
           mt_lastUsedAt = None, mt_createdAt = 500, isActive = True \<rparr>]))"
    by blast
  then show ?thesis unfolding o using demo_listing t by simp
qed

section \<open>The magic link\<close>

text \<open>
  C10. Let the store satisfy the constraints of the migration and let no family have an
  empty id. For a body whose token is a non-empty string: when \<^verbatim>\<open>validateDeviceToken\<close>
  accepts the token, the route answers with \<^verbatim>\<open>success: true\<close> and a token signed from a
  payload without \<^verbatim>\<open>exp\<close> claim, by \<^verbatim>\<open>jwt.sign\<close> without options, whose payload has the
  authentication type \<^verbatim>\<open>DEVICE_TOKEN\<close>, \<^verbatim>\<open>isAccountAuth\<close> false, and the family id and
  family slug of the device token; when it rejects the token, the route answers 401 with
  \<^verbatim>\<open>success: false\<close>.
\<close>

theorem magicLink_issues_token:
  assumes "req_body req = Some body" and "body ''token'' = JStr t" and "t \<noteq> []"
    and "deviceToken_constraints D" and "list_all (\<lambda>f. fam_id f \<noteq> []) (families D)"
  shows "(let r = fst (validateDeviceToken E D t) in
     if authenticated r
     then (\<exists>payload row slug cid name.
             fst (POST_magicLink L E req D)
               = Json 200 True None (Some (MagicLink (jwt_sign L payload (getJwtSecret E)) slug cid name))
             \<and> p_exp payload = None \<and> p_authType payload = Some ''DEVICE_TOKEN''
             \<and> \<not> p_isAccountAuth payload
             \<and> row \<in> set (deviceTokens D) \<and> dt_token row = t
             \<and> p_familyId payload = Some (dt_familyId row)
             \<and> p_familySlug payload = familySlug r)
     else (\<exists>e. fst (POST_magicLink L E req D) = Json 401 False (Some e) None))"
proof (cases "authenticated (fst (validateDeviceToken E D t))")
  case False
  then show ?thesis using assms(1-3)
    by (cases "validateDeviceToken E D t") (simp add: POST_magicLink_def failure_def)
next
  case True
  obtain r D' where v: "validateDeviceToken E D t = (r, D')"
    by (cases "validateDeviceToken E D t")
  with True have auth: "authenticated r" by simp
  from v auth obtain row c where row: "deviceToken_by_token D t = Some row"
      and fam: "familyId r = Some (dt_familyId row)"
    by (auto simp: validateDeviceToken_def Let_def blank_def split: option.splits if_splits)
  have mem: "row \<in> set (deviceTokens D)" "dt_token row = t"
    using find_Some_in [of "\<lambda>r. dt_token r = t" "deviceTokens D" row] row
    by (auto simp: deviceToken_by_token_def)
  then obtain f where f: "family_by_id D (dt_familyId row) = Some f"
    using assms(4) by (auto simp: deviceToken_constraints_def list_all_iff)
  then have "fam_id f = dt_familyId row" "f \<in> set (families D)"
    using find_Some_key [of fam_id "dt_familyId row" "families D" f]
      find_Some_in [of "\<lambda>x. fam_id x = dt_familyId row" "families D" f]
    by (auto simp: family_by_id_def)
  then have ne: "truthy (familyId r)"
    using assms(5) fam by (auto simp: list_all_iff truthy_def)
  let ?payload = "magicLink_payload D' r"
  have resp: "fst (POST_magicLink L E req D) =
     Json 200 True None (Some (MagicLink (jwt_sign L ?payload (getJwtSecret E))
        (or_null (familySlug r)) (or_null (caretakerId r))
        (case p_name ?payload of None \<Rightarrow> [] | Some n \<Rightarrow> n)))"
    using assms(1-3) v auth ne by (simp add: POST_magicLink_def ok_def Let_def)
  have "p_exp ?payload = None \<and> p_authType ?payload = Some ''DEVICE_TOKEN''
      \<and> \<not> p_isAccountAuth ?payload \<and> p_familyId ?payload = Some (dt_familyId row)
      \<and> p_familySlug ?payload = familySlug r"
    using fam by (simp add: magicLink_payload_def Let_def)
  with resp mem True v show ?thesis by (simp add: Let_def) blast
qed

theorem magicLink_issues_token_witness:
  "authenticated (fst (validateDeviceToken demo_env demo_db ''fedcba9876543210''))
   \<and> (\<exists>payload row slug cid name.
         fst (POST_magicLink demo_lib demo_env (demo_request None) demo_db)
           = Json 200 True None
               (Some (MagicLink (jwt_sign demo_lib payload (getJwtSecret demo_env)) slug cid name))
         \<and> p_exp payload = None \<and> p_authType payload = Some ''DEVICE_TOKEN''
         \<and> \<not> p_isAccountAuth payload
         \<and> row \<in> set (deviceTokens demo_db) \<and> dt_token row = ''fedcba9876543210''
         \<and> p_familyId payload = Some (dt_familyId row)
         \<and> p_familySlug payload
             = familySlug (fst (validateDeviceToken demo_env demo_db ''fedcba9876543210'')))"
proof -
  have b: "req_body (demo_request None)
      = Some (\<lambda>k. if k = ''token'' then JStr ''fedcba9876543210'' else JUndefined)"
    by (simp add: demo_request_def)
  have f: "list_all (\<lambda>f. fam_id f \<noteq> []) (families demo_db)"
    by (simp add: demo_db_def)
  have a: "authenticated (fst (validateDeviceToken demo_env demo_db ''fedcba9876543210''))"
    by (simp add: validateDeviceToken_def deviceToken_by_token_def demo_db_def demo_env_def
        caretaker_by_id_def Let_def blank_def)
  from magicLink_issues_token [OF b _ _ demo_constraints f, of "''fedcba9876543210''" demo_env demo_lib] a
  show ?thesis by (simp add: Let_def)
qed

end
